theory Spec2Isabelle
  imports Complex_Main
begin

section \<open>Data model\<close>

text \<open>
  The animation timeline engine of the repository: the interface \<^verbatim>\<open>AnimSprite\<close>, the class
  \<^verbatim>\<open>Animation\<close> and the registry of animation builders.

  Modelling decisions.
  \<^item> A JavaScript \<^verbatim>\<open>number\<close> is a \<^typ>\<open>real\<close>: times, durations and also indices, since
    \<^verbatim>\<open>setCurrentSprite\<close> stores any number and the binary search computes with it. The
    rounding of floating point arithmetic and the values \<^verbatim>\<open>NaN\<close> and \<^verbatim>\<open>Infinity\<close> are not
    modelled.
  \<^item> An optional field is an \<^typ>\<open>'a option\<close>, \<^verbatim>\<open>undefined\<close> being \<^term>\<open>None\<close>.
  \<^item> \<^verbatim>\<open>performance.now()\<close> is an argument \<open>now\<close> of the operation that reads the clock. One
    call of \<^verbatim>\<open>update\<close> reads the clock twice when a loop wraps (once itself, once inside
    \<^verbatim>\<open>start\<close>); both readings are the same \<open>now\<close>: a call takes no time.
  \<^item> An exception is a value of type \<open>error\<close>, and an operation that can throw returns
    \<open>error + 'a\<close>. Destructuring \<^verbatim>\<open>this.sprites[midI]\<close> when the element is
    \<^verbatim>\<open>undefined\<close> throws a \<^verbatim>\<open>TypeError\<close>.
  \<^item> The object \<^verbatim>\<open>animationBuilders\<close> is given by what a read \<^verbatim>\<open>animationBuilders[name]\<close>
    yields for each name, be the property the object's own or an inherited one.
\<close>

datatype error = Error string | TypeError

record AnimSprite =
  name :: string
  duration :: real
  durationUpToNow :: real
  timestampBegin :: "real option"
  timestampEnd :: "real option"
  offsetX :: "real option"
  offsetY :: "real option"
  opacity :: "real option"
  hasPlayedSound :: bool

text \<open>
  The argument of \<^verbatim>\<open>addSprite\<close> has type \<^verbatim>\<open>Partial<AnimSprite>\<close>; the method destructures
  the five fields below and never reads another one.
\<close>

record PartialAnimSprite =
  p_name :: "string option"
  p_duration :: "real option"
  p_offsetX :: "real option"
  p_offsetY :: "real option"
  p_opacity :: "real option"

text \<open>
  The class \<^verbatim>\<open>Animation\<close>. The field \<^verbatim>\<open>name\<close> is \<open>anim_name\<close> here (a sprite has a
  \<open>name\<close> too) and the field \<^verbatim>\<open>done\<close> is \<open>is_done\<close> (\<open>done\<close> is a keyword of the
  proof language).
\<close>

record Animation =
  anim_name :: string
  loop :: bool
  sprites :: "AnimSprite list"
  is_done :: bool
  totalDurationMs :: real
  currentSpriteIndex :: real
  timestampStart :: real
  timestampPause :: real

section \<open>The class Animation\<close>

definition new_Animation :: "bool \<Rightarrow> Animation" where
  "new_Animation l =
     \<lparr>anim_name = '''', loop = l, sprites = [], is_done = False, totalDurationMs = 0,
      currentSpriteIndex = 0, timestampStart = 0, timestampPause = 0\<rparr>"

definition reset :: "Animation \<Rightarrow> Animation" where
  "reset a = a\<lparr>is_done := False, currentSpriteIndex := 0\<rparr>"

definition start :: "real \<Rightarrow> Animation \<Rightarrow> Animation" where
  "start now a = a\<lparr>timestampStart := now\<rparr>"

definition getDurationMs :: "Animation \<Rightarrow> real" where
  "getDurationMs a = totalDurationMs a"

definition getLongestFrameMs :: "Animation \<Rightarrow> real" where
  "getLongestFrameMs a =
     foldl (\<lambda>ms sprite. if duration sprite > ms then duration sprite else ms) 0 (sprites a)"

text \<open>
  \<^verbatim>\<open>getLongestFrameIndex\<close> reduces over the sprites with their indices; the variable
  \<^verbatim>\<open>ms\<close> outside the callback is the second component of the accumulator.
\<close>

definition getLongestFrameIndex :: "Animation \<Rightarrow> real" where
  "getLongestFrameIndex a =
     fst (foldl (\<lambda>(ind, ms) (sprite, i). if duration sprite > ms then (i, duration sprite) else (ind, ms))
            (0, 0) (zip (sprites a) (map real [0 ..< length (sprites a)])))"

text \<open>
  \<^verbatim>\<open>this.sprites[i]\<close> for a number \<open>i\<close>: the element when \<open>i\<close> is a whole number from 0 to
  \<open>length - 1\<close>, and \<^verbatim>\<open>undefined\<close> for every other number (a negative one, a fraction, one
  past the end).
\<close>

definition is_index :: "Animation \<Rightarrow> real \<Rightarrow> bool" where
  "is_index a i \<longleftrightarrow> of_int \<lfloor>i\<rfloor> = i \<and> 0 \<le> i \<and> i < real (length (sprites a))"

definition sprite_at :: "Animation \<Rightarrow> real \<Rightarrow> AnimSprite option" where
  "sprite_at a i = (if is_index a i then Some (sprites a ! nat \<lfloor>i\<rfloor>) else None)"

definition getDurationToIndex :: "Animation \<Rightarrow> real \<Rightarrow> real" where
  "getDurationToIndex a i =
     (if i \<ge> real (length (sprites a)) then totalDurationMs a
      else (case sprite_at a i of None \<Rightarrow> 0 | Some s \<Rightarrow> durationUpToNow s))"

text \<open>\<^verbatim>\<open>x || 0\<close> on an optional number and \<^verbatim>\<open>x ?? 0\<close>; \<^verbatim>\<open>name || ''\<close> on an optional string.\<close>

definition or0 :: "real option \<Rightarrow> real" where
  "or0 x = (case x of None \<Rightarrow> 0 | Some v \<Rightarrow> if v = 0 then 0 else v)"

definition nullish0 :: "real option \<Rightarrow> real" where
  "nullish0 x = (case x of None \<Rightarrow> 0 | Some v \<Rightarrow> v)"

definition or_empty :: "string option \<Rightarrow> string" where
  "or_empty x = (case x of None \<Rightarrow> '''' | Some s \<Rightarrow> s)"

definition addSprite :: "PartialAnimSprite \<Rightarrow> Animation \<Rightarrow> Animation" where
  "addSprite p a =
     a\<lparr>sprites := sprites a @
          [\<lparr>name = or_empty (p_name p),
            duration = nullish0 (p_duration p),
            durationUpToNow = totalDurationMs a,
            timestampBegin = Some (totalDurationMs a),
            timestampEnd = Some (totalDurationMs a + nullish0 (p_duration p)),
            offsetX = Some (or0 (p_offsetX p)),
            offsetY = Some (or0 (p_offsetY p)),
            opacity = p_opacity p,
            hasPlayedSound = False\<rparr>],
       totalDurationMs := totalDurationMs a + nullish0 (p_duration p)\<rparr>"

text \<open>
  The two bounds \<^verbatim>\<open>beginTime\<close> and \<^verbatim>\<open>endTime\<close> that \<^verbatim>\<open>getAnimIndex\<close> computes for the
  sprite at an index \<open>midI\<close> of the array, and its containment test.
\<close>

definition beginTime :: "Animation \<Rightarrow> real \<Rightarrow> real" where
  "beginTime a midI = or0 (timestampBegin (sprites a ! nat \<lfloor>midI\<rfloor>)) + timestampStart a"

definition endTime :: "Animation \<Rightarrow> real \<Rightarrow> real" where
  "endTime a midI = or0 (timestampEnd (sprites a ! nat \<lfloor>midI\<rfloor>)) + timestampStart a"

definition contains_now :: "Animation \<Rightarrow> real \<Rightarrow> real \<Rightarrow> bool" where
  "contains_now a timestampNow midI \<longleftrightarrow>
     timestampNow < endTime a midI \<and> timestampNow > beginTime a midI"

text \<open>
  The \<^verbatim>\<open>while\<close> loop of \<^verbatim>\<open>getAnimIndex\<close>, with the variables \<^verbatim>\<open>lastIndex\<close>,
  \<^verbatim>\<open>leftI\<close> and \<^verbatim>\<open>rightI\<close> as arguments; \<open>midI\<close> is
  \<^verbatim>\<open>leftI + Math.floor((rightI - leftI) / 2)\<close>. When \<^verbatim>\<open>this.sprites[midI]\<close> is
  \<^verbatim>\<open>undefined\<close> the destructuring throws.
\<close>

function getAnimIndex_loop :: "Animation \<Rightarrow> real \<Rightarrow> real \<Rightarrow> real \<Rightarrow> real \<Rightarrow> error + real" where
  "getAnimIndex_loop a timestampNow lastIndex leftI rightI =
     (if leftI \<le> rightI then
        (if \<not> is_index a (leftI + of_int \<lfloor>(rightI - leftI) / 2\<rfloor>)
         then Inl TypeError
         else if contains_now a timestampNow (leftI + of_int \<lfloor>(rightI - leftI) / 2\<rfloor>)
         then Inr (leftI + of_int \<lfloor>(rightI - leftI) / 2\<rfloor>)
         else if timestampNow \<ge> endTime a (leftI + of_int \<lfloor>(rightI - leftI) / 2\<rfloor>)
         then getAnimIndex_loop a timestampNow (leftI + of_int \<lfloor>(rightI - leftI) / 2\<rfloor>)
                (leftI + of_int \<lfloor>(rightI - leftI) / 2\<rfloor> + 1) rightI
         else getAnimIndex_loop a timestampNow (leftI + of_int \<lfloor>(rightI - leftI) / 2\<rfloor>)
                leftI (leftI + of_int \<lfloor>(rightI - leftI) / 2\<rfloor> - 1))
      else Inr lastIndex)"
  by pat_completeness auto
termination
proof (relation "measure (\<lambda>(a, t, lastIndex, leftI, rightI). nat (\<lfloor>rightI - leftI\<rfloor> + 1))")
  show "wf (measure (\<lambda>(a, t, lastIndex, leftI, rightI). nat (\<lfloor>rightI - leftI\<rfloor> + 1)))"
    by simp
next
  fix a :: Animation and timestampNow lastIndex leftI rightI :: real
  assume le: "leftI \<le> rightI"
  have h0: "0 \<le> \<lfloor>(rightI - leftI) / 2\<rfloor>" using le by simp
  have "rightI - (leftI + of_int \<lfloor>(rightI - leftI) / 2\<rfloor> + 1)
          = (rightI - leftI) - of_int (\<lfloor>(rightI - leftI) / 2\<rfloor> + 1)"
    by simp
  then have "\<lfloor>rightI - (leftI + of_int \<lfloor>(rightI - leftI) / 2\<rfloor> + 1)\<rfloor>
          = \<lfloor>rightI - leftI\<rfloor> - (\<lfloor>(rightI - leftI) / 2\<rfloor> + 1)"
    by (simp only: floor_diff_of_int)
  with h0 le
  show "((a, timestampNow, leftI + of_int \<lfloor>(rightI - leftI) / 2\<rfloor>,
           leftI + of_int \<lfloor>(rightI - leftI) / 2\<rfloor> + 1, rightI),
          (a, timestampNow, lastIndex, leftI, rightI))
        \<in> measure (\<lambda>(a, t, lastIndex, leftI, rightI). nat (\<lfloor>rightI - leftI\<rfloor> + 1))"
    by simp
next
  fix a :: Animation and timestampNow lastIndex leftI rightI :: real
  assume le: "leftI \<le> rightI"
  have "\<lfloor>(rightI - leftI) / 2\<rfloor> \<le> \<lfloor>rightI - leftI\<rfloor>"
    using le by (intro floor_mono) simp
  moreover have "0 \<le> \<lfloor>rightI - leftI\<rfloor>" using le by simp
  ultimately
  show "((a, timestampNow, leftI + of_int \<lfloor>(rightI - leftI) / 2\<rfloor>, leftI,
           leftI + of_int \<lfloor>(rightI - leftI) / 2\<rfloor> - 1),
          (a, timestampNow, lastIndex, leftI, rightI))
        \<in> measure (\<lambda>(a, t, lastIndex, leftI, rightI). nat (\<lfloor>rightI - leftI\<rfloor> + 1))"
    by simp
qed

definition getAnimIndex :: "Animation \<Rightarrow> real \<Rightarrow> error + real" where
  "getAnimIndex a timestampNow =
     getAnimIndex_loop a timestampNow 0 (currentSpriteIndex a) (real (length (sprites a)) - 1)"

text \<open>
  The midpoints the loop visits, in order: the values it assigns to \<^verbatim>\<open>lastIndex\<close>. The
  list ends with the midpoint at which the loop returns or throws.
\<close>

function visited :: "Animation \<Rightarrow> real \<Rightarrow> real \<Rightarrow> real \<Rightarrow> real list" where
  "visited a timestampNow leftI rightI =
     (if leftI \<le> rightI then
        (leftI + of_int \<lfloor>(rightI - leftI) / 2\<rfloor>) #
        (if \<not> is_index a (leftI + of_int \<lfloor>(rightI - leftI) / 2\<rfloor>)
         then []
         else if contains_now a timestampNow (leftI + of_int \<lfloor>(rightI - leftI) / 2\<rfloor>)
         then []
         else if timestampNow \<ge> endTime a (leftI + of_int \<lfloor>(rightI - leftI) / 2\<rfloor>)
         then visited a timestampNow (leftI + of_int \<lfloor>(rightI - leftI) / 2\<rfloor> + 1) rightI
         else visited a timestampNow leftI (leftI + of_int \<lfloor>(rightI - leftI) / 2\<rfloor> - 1))
      else [])"
  by pat_completeness auto
termination
proof (relation "measure (\<lambda>(a, t, leftI, rightI). nat (\<lfloor>rightI - leftI\<rfloor> + 1))")
  show "wf (measure (\<lambda>(a, t, leftI, rightI). nat (\<lfloor>rightI - leftI\<rfloor> + 1)))"
    by simp
next
  fix a :: Animation and timestampNow leftI rightI :: real
  assume le: "leftI \<le> rightI"
  have h0: "0 \<le> \<lfloor>(rightI - leftI) / 2\<rfloor>" using le by simp
  have "rightI - (leftI + of_int \<lfloor>(rightI - leftI) / 2\<rfloor> + 1)
          = (rightI - leftI) - of_int (\<lfloor>(rightI - leftI) / 2\<rfloor> + 1)"
    by simp
  then have "\<lfloor>rightI - (leftI + of_int \<lfloor>(rightI - leftI) / 2\<rfloor> + 1)\<rfloor>
          = \<lfloor>rightI - leftI\<rfloor> - (\<lfloor>(rightI - leftI) / 2\<rfloor> + 1)"
    by (simp only: floor_diff_of_int)
  with h0 le
  show "((a, timestampNow, leftI + of_int \<lfloor>(rightI - leftI) / 2\<rfloor> + 1, rightI),
          (a, timestampNow, leftI, rightI))
        \<in> measure (\<lambda>(a, t, leftI, rightI). nat (\<lfloor>rightI - leftI\<rfloor> + 1))"
    by simp
next
  fix a :: Animation and timestampNow leftI rightI :: real
  assume le: "leftI \<le> rightI"
  have "\<lfloor>(rightI - leftI) / 2\<rfloor> \<le> \<lfloor>rightI - leftI\<rfloor>"
    using le by (intro floor_mono) simp
  moreover have "0 \<le> \<lfloor>rightI - leftI\<rfloor>" using le by simp
  ultimately
  show "((a, timestampNow, leftI, leftI + of_int \<lfloor>(rightI - leftI) / 2\<rfloor> - 1),
          (a, timestampNow, leftI, rightI))
        \<in> measure (\<lambda>(a, t, leftI, rightI). nat (\<lfloor>rightI - leftI\<rfloor> + 1))"
    by simp
qed

text \<open>
  \<^verbatim>\<open>update\<close>. Its first statement, the wrap of a looping animation, is \<open>update_wrap\<close>; the
  call \<^verbatim>\<open>getAnimIndex(now)\<close> that follows can throw, and then the object stays as
  \<open>update_wrap\<close> left it.
\<close>

definition update_wrap :: "real \<Rightarrow> Animation \<Rightarrow> Animation" where
  "update_wrap now a =
     (if currentSpriteIndex a = real (length (sprites a)) - 1 then
        (if loop a \<and> now - timestampStart a > totalDurationMs a then
           (let newStart = timestampStart a + totalDurationMs a;
                a' = start now (reset a)
            in if now - newStart < totalDurationMs a' then a'\<lparr>timestampStart := newStart\<rparr> else a')
         else a)
      else a)"

definition update_done :: "real \<Rightarrow> Animation \<Rightarrow> Animation" where
  "update_done now a =
     (if \<not> loop a then
        (if now - timestampStart a \<ge> totalDurationMs a then a\<lparr>is_done := True\<rparr> else a)
      else a)"

definition update :: "real \<Rightarrow> Animation \<Rightarrow> error + Animation" where
  "update now a =
     (case getAnimIndex (update_wrap now a) now of
        Inl e \<Rightarrow> Inl e
      | Inr i \<Rightarrow> Inr (update_done now ((update_wrap now a)\<lparr>currentSpriteIndex := i\<rparr>)))"

text \<open>The object after a call of \<^verbatim>\<open>update\<close>, whether the call returned or threw.\<close>

definition after_update :: "real \<Rightarrow> Animation \<Rightarrow> Animation" where
  "after_update now a = (case update now a of Inl e \<Rightarrow> update_wrap now a | Inr a' \<Rightarrow> a')"

text \<open>\<^verbatim>\<open>getSpriteName(i?)\<close>: the result is \<^verbatim>\<open>undefined\<close> when there is no such sprite.\<close>

definition getSpriteName :: "Animation \<Rightarrow> real option \<Rightarrow> string option" where
  "getSpriteName a i =
     map_option name (sprite_at a (case i of None \<Rightarrow> currentSpriteIndex a | Some j \<Rightarrow> j))"

definition setCurrentSprite :: "real \<Rightarrow> Animation \<Rightarrow> Animation" where
  "setCurrentSprite i a = a\<lparr>currentSpriteIndex := i\<rparr>"

definition isDone :: "Animation \<Rightarrow> bool" where
  "isDone a = is_done a"

section \<open>The registry of builders\<close>

text \<open>
  A builder is a function of no argument that returns an Animation. The registry is the
  object \<^verbatim>\<open>animationBuilders\<close>, created as \<^verbatim>\<open>{}\<close>; \<^verbatim>\<open>createAnimation\<close> only reads it, with
  \<^verbatim>\<open>animationBuilders[animName]\<close>, and a read of a JavaScript object also finds the
  properties the object inherits. So the registry is modelled by what the read yields for
  each name:
  \<^item> \<open>Absent\<close>: \<^verbatim>\<open>undefined\<close> (or another falsy value), the \<^verbatim>\<open>else\<close> branch of
    \<^verbatim>\<open>if (builder)\<close>;
  \<^item> \<open>Builder b\<close>: the builder \<open>b\<close>, which is there when \<^verbatim>\<open>createAnimationBuilder\<close> stored
    it under the name;
  \<^item> \<open>NotABuilder\<close>: a truthy value that is no builder. The branch \<^verbatim>\<open>if (builder)\<close> is
    taken, and one of \<^verbatim>\<open>builder()\<close>, \<^verbatim>\<open>anim.name = animName\<close> and \<^verbatim>\<open>anim.start()\<close> throws
    a \<^verbatim>\<open>TypeError\<close>.
\<close>

type_synonym AnimationBuilder = "unit \<Rightarrow> Animation"

datatype property = Absent | Builder AnimationBuilder | NotABuilder

type_synonym animationBuilders = "string \<Rightarrow> property"

text \<open>
  The registry as the module creates it, the object literal \<^verbatim>\<open>{}\<close> with nothing stored.
  Its reads find the properties of \<^verbatim>\<open>Object.prototype\<close>, the twelve names below. Each is
  truthy and none is a builder: \<^verbatim>\<open>constructor()\<close> returns a plain object, which has no
  \<^verbatim>\<open>start\<close>; \<^verbatim>\<open>toString()\<close> and \<^verbatim>\<open>isPrototypeOf()\<close> return a string and \<^verbatim>\<open>false\<close>, on
  which the assignment of \<^verbatim>\<open>name\<close> throws in the strict code of a module (and the call
  of \<^verbatim>\<open>start\<close> would throw otherwise); the value of
  \<^verbatim>\<open>__proto__\<close> is an object and not a function; the other functions throw when called
  without a receiver.
\<close>

definition object_prototype_names :: "string list" where
  "object_prototype_names =
     [''constructor'', ''toString'', ''toLocaleString'', ''valueOf'', ''hasOwnProperty'',
      ''isPrototypeOf'', ''propertyIsEnumerable'', ''__proto__'', ''__defineGetter__'',
      ''__defineSetter__'', ''__lookupGetter__'', ''__lookupSetter__'']"

definition object_literal :: animationBuilders where
  "object_literal animName =
     (if animName \<in> set object_prototype_names then NotABuilder else Absent)"

text \<open>The truthiness of what a read yields, for \<^verbatim>\<open>if (builder)\<close> and \<^verbatim>\<open>||\<close>.\<close>

definition truthy :: "property \<Rightarrow> bool" where
  "truthy p = (case p of Absent \<Rightarrow> False | Builder b \<Rightarrow> True | NotABuilder \<Rightarrow> True)"

definition hasAnimation :: "animationBuilders \<Rightarrow> string \<Rightarrow> bool" where
  "hasAnimation reg animName =
     (if truthy (reg animName) \<or> animName = ''invisible'' then True else False)"

text \<open>
  \<^verbatim>\<open>createAnimation\<close> reads the registry and the clock; the result is paired with the
  registry as the call leaves it. The message of the error is the template literal of the
  source, the quote character being \<open>CHR 0x27\<close>.
\<close>

definition no_animation_message :: "string \<Rightarrow> string" where
  "no_animation_message animName =
     ''No animation exists which is named '' @ [CHR 0x27] @ animName @ [CHR 0x27]"

definition createAnimation ::
  "animationBuilders \<Rightarrow> real \<Rightarrow> string \<Rightarrow> (error + Animation) \<times> animationBuilders" where
  "createAnimation reg now animName =
     (if animName = ''invisible'' then
        (Inr (addSprite \<lparr>p_name = Some ''invisible'', p_duration = Some 100, p_offsetX = None,
                         p_offsetY = None, p_opacity = None\<rparr> (new_Animation False)), reg)
      else
        (case reg animName of
           Builder builder \<Rightarrow> (Inr (start now ((builder ())\<lparr>anim_name := animName\<rparr>)), reg)
         | NotABuilder \<Rightarrow> (Inl TypeError, reg)
         | Absent \<Rightarrow> (Inl (Error (no_animation_message animName)), reg)))"

text \<open>
  A caller of the class: the calls that change an Animation, and the object after a
  sequence of them. A call of \<^verbatim>\<open>update\<close> that throws leaves the object as \<open>after_update\<close>
  says, and the caller goes on.
\<close>

datatype call = Reset | Start real | AddSprite PartialAnimSprite | Update real | SetCurrentSprite real

fun perform :: "Animation \<Rightarrow> call \<Rightarrow> Animation" where
  "perform a Reset = reset a"
| "perform a (Start now) = start now a"
| "perform a (AddSprite p) = addSprite p a"
| "perform a (Update now) = after_update now a"
| "perform a (SetCurrentSprite i) = setCurrentSprite i a"

definition perform_all :: "Animation \<Rightarrow> call list \<Rightarrow> Animation" where
  "perform_all a cs = foldl perform a cs"

text \<open>
  What a builder does: a new Animation and one call of \<^verbatim>\<open>addSprite\<close> for each frame, given
  by its name and its duration.
\<close>

definition frame :: "string \<times> real \<Rightarrow> PartialAnimSprite" where
  "frame nd =
     \<lparr>p_name = Some (fst nd), p_duration = Some (snd nd), p_offsetX = None, p_offsetY = None,
      p_opacity = None\<rparr>"

definition build :: "bool \<Rightarrow> (string \<times> real) list \<Rightarrow> Animation" where
  "build l nds = foldl (\<lambda>a nd. addSprite (frame nd) a) (new_Animation l) nds"

text \<open>
  The begin and end offsets of the frames as \<^verbatim>\<open>getAnimIndex\<close> reads them, in the order of
  the frames. The frames are in playback order when these offsets never decrease, start
  at 0 or later and end at \<open>totalDurationMs\<close> or earlier: what \<^verbatim>\<open>addSprite\<close> produces from
  durations that are not negative.
\<close>

definition frame_bounds :: "Animation \<Rightarrow> real list" where
  "frame_bounds a =
     concat (map (\<lambda>s. [or0 (timestampBegin s), or0 (timestampEnd s)]) (sprites a))"

definition in_playback_order :: "Animation \<Rightarrow> bool" where
  "in_playback_order a \<longleftrightarrow> sorted (0 # frame_bounds a @ [totalDurationMs a])"

text \<open>
  A whole number of milliseconds. On whole numbers up to \<open>2 ^ 53\<close> the sums, differences
  and comparisons of doubles are exact, and the reals of this model compute what the code
  computes.
\<close>

definition whole :: "real \<Rightarrow> bool" where
  "whole x \<longleftrightarrow> of_int \<lfloor>x\<rfloor> = x"

section \<open>The binary search of getAnimIndex\<close>

declare getAnimIndex_loop.simps [simp del]
declare visited.simps [simp del]

lemmas eval_defs =
  build_def frame_def addSprite_def new_Animation_def nullish0_def or0_def or_empty_def
  getAnimIndex_def contains_now_def beginTime_def endTime_def setCurrentSprite_def
  start_def reset_def is_index_def

text \<open>The value the loop returns, read off the list of the midpoints it visits.\<close>

lemma loop_visited:
  "getAnimIndex_loop a t l lo hi =
     (if visited a t lo hi = [] then Inr l
      else if \<not> is_index a (last (visited a t lo hi))
      then Inl TypeError else Inr (last (visited a t lo hi)))"
proof (induction a t l lo hi rule: getAnimIndex_loop.induct)
  case (1 a t l lo hi)
  show ?case
    apply (subst getAnimIndex_loop.simps)
    apply (subst (1 2 3) visited.simps)
    using 1 apply simp
    done
qed

text \<open>One step of the loop, and where the midpoint lies.\<close>

lemma visited_cases:
  assumes "m \<in> set (visited a t lo hi)"
  shows "lo \<le> hi \<and>
         (m = lo + of_int \<lfloor>(hi - lo) / 2\<rfloor>
          \<or> (is_index a (lo + of_int \<lfloor>(hi - lo) / 2\<rfloor>)
              \<and> \<not> contains_now a t (lo + of_int \<lfloor>(hi - lo) / 2\<rfloor>)
              \<and> endTime a (lo + of_int \<lfloor>(hi - lo) / 2\<rfloor>) \<le> t
              \<and> m \<in> set (visited a t (lo + of_int \<lfloor>(hi - lo) / 2\<rfloor> + 1) hi))
          \<or> (is_index a (lo + of_int \<lfloor>(hi - lo) / 2\<rfloor>)
              \<and> \<not> contains_now a t (lo + of_int \<lfloor>(hi - lo) / 2\<rfloor>)
              \<and> \<not> endTime a (lo + of_int \<lfloor>(hi - lo) / 2\<rfloor>) \<le> t
              \<and> m \<in> set (visited a t lo (lo + of_int \<lfloor>(hi - lo) / 2\<rfloor> - 1))))"
  using assms by (subst (asm) visited.simps) (auto split: if_splits)

lemma midpoint_bounds:
  assumes "lo \<le> hi"
  shows "lo \<le> lo + real_of_int \<lfloor>(hi - lo) / 2\<rfloor>" and "lo + real_of_int \<lfloor>(hi - lo) / 2\<rfloor> \<le> hi"
proof -
  have "0 \<le> \<lfloor>(hi - lo) / 2\<rfloor>" using assms by simp
  then show "lo \<le> lo + real_of_int \<lfloor>(hi - lo) / 2\<rfloor>" by simp
  have "real_of_int \<lfloor>(hi - lo) / 2\<rfloor> \<le> (hi - lo) / 2" by (rule of_int_floor_le)
  also have "\<dots> \<le> hi - lo" using assms by simp
  finally show "lo + real_of_int \<lfloor>(hi - lo) / 2\<rfloor> \<le> hi" by simp
qed

lemma visited_bounds: "m \<in> set (visited a t lo hi) \<Longrightarrow> lo \<le> m \<and> m \<le> hi"
proof (induction a t lo hi rule: visited.induct)
  case (1 a t lo hi)
  from visited_cases [OF "1.prems"] have le: "lo \<le> hi" by simp
  note mb = midpoint_bounds [OF le]
  from visited_cases [OF "1.prems"] consider
      (mid) "m = lo + of_int \<lfloor>(hi - lo) / 2\<rfloor>"
    | (right) "is_index a (lo + of_int \<lfloor>(hi - lo) / 2\<rfloor>)"
        "\<not> contains_now a t (lo + of_int \<lfloor>(hi - lo) / 2\<rfloor>)"
        "endTime a (lo + of_int \<lfloor>(hi - lo) / 2\<rfloor>) \<le> t"
        "m \<in> set (visited a t (lo + of_int \<lfloor>(hi - lo) / 2\<rfloor> + 1) hi)"
    | (left) "is_index a (lo + of_int \<lfloor>(hi - lo) / 2\<rfloor>)"
        "\<not> contains_now a t (lo + of_int \<lfloor>(hi - lo) / 2\<rfloor>)"
        "\<not> endTime a (lo + of_int \<lfloor>(hi - lo) / 2\<rfloor>) \<le> t"
        "m \<in> set (visited a t lo (lo + of_int \<lfloor>(hi - lo) / 2\<rfloor> - 1))"
    by blast
  then show ?case
  proof cases
    case mid
    with mb show ?thesis by blast
  next
    case right
    from "1.IH"(1) [OF le _ right(2,3,4)] right(1)
    have "lo + of_int \<lfloor>(hi - lo) / 2\<rfloor> + 1 \<le> m" "m \<le> hi" by simp_all
    with mb show ?thesis by linarith
  next
    case left
    from "1.IH"(2) [OF le _ left(2,3,4)] left(1)
    have "lo \<le> m" "m \<le> lo + of_int \<lfloor>(hi - lo) / 2\<rfloor> - 1" by simp_all
    with mb show ?thesis by linarith
  qed
qed

text \<open>From a whole left bound every midpoint is a whole number.\<close>

lemma whole_add_int: "whole x \<Longrightarrow> whole (x + of_int k)"
  unfolding whole_def by (metis floor_add_int of_int_add)

lemma whole_0 [simp]: "whole 0"
  by (simp add: whole_def)

lemma visited_whole: "whole lo \<Longrightarrow> m \<in> set (visited a t lo hi) \<Longrightarrow> whole m"
proof (induction a t lo hi rule: visited.induct)
  case (1 a t lo hi)
  from visited_cases [OF "1.prems"(2)] have le: "lo \<le> hi" by simp
  have w: "whole (lo + of_int \<lfloor>(hi - lo) / 2\<rfloor>)"
    by (rule whole_add_int [OF "1.prems"(1)])
  have w1: "whole (lo + of_int \<lfloor>(hi - lo) / 2\<rfloor> + 1)"
    using whole_add_int [OF w, of 1] by simp
  from visited_cases [OF "1.prems"(2)] consider
      (mid) "m = lo + of_int \<lfloor>(hi - lo) / 2\<rfloor>"
    | (right) "is_index a (lo + of_int \<lfloor>(hi - lo) / 2\<rfloor>)"
        "\<not> contains_now a t (lo + of_int \<lfloor>(hi - lo) / 2\<rfloor>)"
        "endTime a (lo + of_int \<lfloor>(hi - lo) / 2\<rfloor>) \<le> t"
        "m \<in> set (visited a t (lo + of_int \<lfloor>(hi - lo) / 2\<rfloor> + 1) hi)"
    | (left) "is_index a (lo + of_int \<lfloor>(hi - lo) / 2\<rfloor>)"
        "\<not> contains_now a t (lo + of_int \<lfloor>(hi - lo) / 2\<rfloor>)"
        "\<not> endTime a (lo + of_int \<lfloor>(hi - lo) / 2\<rfloor>) \<le> t"
        "m \<in> set (visited a t lo (lo + of_int \<lfloor>(hi - lo) / 2\<rfloor> - 1))"
    by blast
  then show ?case
  proof cases
    case mid
    with w show ?thesis by simp
  next
    case right
    from "1.IH"(1) [OF le _ right(2,3) w1 right(4)] right(1) show ?thesis by simp
  next
    case left
    from "1.IH"(2) [OF le _ left(2,3) "1.prems"(1) left(4)] left(1) show ?thesis by simp
  qed
qed

lemma visited_empty_iff: "visited a t lo hi = [] \<longleftrightarrow> hi < lo"
  by (subst visited.simps) auto

text \<open>
  With a current index that is a whole number and not negative, every midpoint is an
  index of the array or the loop body never runs: the search returns the last midpoint,
  or the initial 0 of \<^verbatim>\<open>lastIndex\<close>.
\<close>

lemma getAnimIndex_whole_index:
  assumes "whole (currentSpriteIndex a)" and "0 \<le> currentSpriteIndex a"
  shows "getAnimIndex a t =
           Inr (last (0 # visited a t (currentSpriteIndex a) (real (length (sprites a)) - 1)))"
proof (cases "visited a t (currentSpriteIndex a) (real (length (sprites a)) - 1) = []")
  case True
  then show ?thesis by (simp add: getAnimIndex_def loop_visited)
next
  case False
  then have m: "last (visited a t (currentSpriteIndex a) (real (length (sprites a)) - 1))
               \<in> set (visited a t (currentSpriteIndex a) (real (length (sprites a)) - 1))"
    by simp
  from visited_bounds [OF m] visited_whole [OF assms(1) m] assms(2)
  have "is_index a (last (visited a t (currentSpriteIndex a) (real (length (sprites a)) - 1)))"
    by (simp add: is_index_def whole_def)
  with False show ?thesis
    by (simp add: getAnimIndex_def loop_visited)
qed

text \<open>
  Claim C1. The claim: for every Animation with a non-empty sprite sequence and every
  \<open>timestampNow\<close>, \<^verbatim>\<open>getAnimIndex\<close> is a binary search from \<open>currentSpriteIndex\<close> with a
  strict containment test that returns a midpoint that passes the test, and otherwise
  the last midpoint visited. The code at the input below does not return: on an Animation
  of one frame after \<^verbatim>\<open>setCurrentSprite(-1)\<close> the loop visits the midpoint -1,
  \<^verbatim>\<open>this.sprites[-1]\<close> is \<^verbatim>\<open>undefined\<close>, and the destructuring throws a \<^verbatim>\<open>TypeError\<close>.
  \<^verbatim>\<open>getSpriteName\<close>, which reads the same array at the same index, guards the read with
  \<^verbatim>\<open>?.\<close> and returns \<^verbatim>\<open>undefined\<close>.
\<close>

theorem getAnimIndex_negative_index_throws:
  "sprites (setCurrentSprite (- 1) (build False [(''a'', 100)])) \<noteq> []
   \<and> visited (setCurrentSprite (- 1) (build False [(''a'', 100)])) 50
        (currentSpriteIndex (setCurrentSprite (- 1) (build False [(''a'', 100)])))
        (real (length (sprites (setCurrentSprite (- 1) (build False [(''a'', 100)])))) - 1) = [- 1]
   \<and> sprite_at (setCurrentSprite (- 1) (build False [(''a'', 100)])) (- 1) = None
   \<and> getAnimIndex (setCurrentSprite (- 1) (build False [(''a'', 100)])) 50 = Inl TypeError
   \<and> getSpriteName (setCurrentSprite (- 1) (build False [(''a'', 100)])) None = None"
  by (simp add: eval_defs getAnimIndex_loop.simps visited.simps sprite_at_def getSpriteName_def)

text \<open>
  Claim C8. The claim: for every Animation with a non-empty sprite sequence and
  \<open>0 \<le> currentSpriteIndex < sprites.length\<close>, and every \<open>timestampNow\<close>, \<^verbatim>\<open>getAnimIndex\<close>
  returns an index from 0 to \<open>sprites.length - 1\<close> and never reads outside the sequence.
  The code at the input below does not: \<^verbatim>\<open>setCurrentSprite\<close> stores any number, and with
  the index 0.5 on two frames, which is between 0 and the length, the midpoint is
  \<open>0.5 + Math.floor(0.25) = 0.5\<close>; \<^verbatim>\<open>this.sprites[0.5]\<close> is no element of the sequence, and
  the destructuring throws a \<^verbatim>\<open>TypeError\<close>.
\<close>

theorem getAnimIndex_fractional_index_throws:
  "sprites (setCurrentSprite (1 / 2) (build False [(''a'', 100), (''b'', 50)])) \<noteq> []
   \<and> 0 \<le> currentSpriteIndex (setCurrentSprite (1 / 2) (build False [(''a'', 100), (''b'', 50)]))
   \<and> currentSpriteIndex (setCurrentSprite (1 / 2) (build False [(''a'', 100), (''b'', 50)]))
       < real (length (sprites (setCurrentSprite (1 / 2) (build False [(''a'', 100), (''b'', 50)]))))
   \<and> visited (setCurrentSprite (1 / 2) (build False [(''a'', 100), (''b'', 50)])) 120
        (currentSpriteIndex (setCurrentSprite (1 / 2) (build False [(''a'', 100), (''b'', 50)])))
        (real (length (sprites (setCurrentSprite (1 / 2) (build False [(''a'', 100), (''b'', 50)])))) - 1)
       = [1 / 2]
   \<and> sprite_at (setCurrentSprite (1 / 2) (build False [(''a'', 100), (''b'', 50)])) (1 / 2) = None
   \<and> getAnimIndex (setCurrentSprite (1 / 2) (build False [(''a'', 100), (''b'', 50)])) 120
       = Inl TypeError"
  by (simp add: eval_defs getAnimIndex_loop.simps visited.simps sprite_at_def)

section \<open>Frames in playback order\<close>

text \<open>The offsets of frame \<open>i\<close> in the list of all offsets.\<close>

lemma length_pairs: "length (concat (map (\<lambda>s. [f s, g s]) xs)) = 2 * length xs"
  by (induction xs) simp_all

lemma nth_pairs:
  "i < length xs \<Longrightarrow>
     concat (map (\<lambda>s. [f s, g s]) xs) ! (2 * i) = f (xs ! i)
     \<and> concat (map (\<lambda>s. [f s, g s]) xs) ! (2 * i + 1) = g (xs ! i)"
proof (induction xs arbitrary: i)
  case Nil
  then show ?case by simp
next
  case (Cons x xs)
  show ?case
  proof (cases i)
    case 0
    then show ?thesis by simp
  next
    case (Suc k)
    with Cons.prems have "k < length xs" by simp
    from Cons.IH [OF this] Suc show ?thesis by simp
  qed
qed

lemma playback_order_nth:
  assumes "sorted (frame_bounds a)" and "i \<le> j" and "j < length (sprites a)"
  shows "or0 (timestampBegin (sprites a ! i)) \<le> or0 (timestampBegin (sprites a ! j))"
    and "or0 (timestampEnd (sprites a ! i)) \<le> or0 (timestampEnd (sprites a ! j))"
    and "or0 (timestampBegin (sprites a ! i)) \<le> or0 (timestampEnd (sprites a ! j))"
    and "i < j \<Longrightarrow> or0 (timestampEnd (sprites a ! i)) \<le> or0 (timestampBegin (sprites a ! j))"
proof -
  let ?fb = "concat (map (\<lambda>s. [or0 (timestampBegin s), or0 (timestampEnd s)]) (sprites a))"
  have s: "sorted ?fb" using assms(1) by (simp add: frame_bounds_def)
  have len: "length ?fb = 2 * length (sprites a)" by (rule length_pairs)
  have i: "i < length (sprites a)" using assms(2,3) by simp
  note ni = nth_pairs [OF i, of "\<lambda>s. or0 (timestampBegin s)" "\<lambda>s. or0 (timestampEnd s)"]
  note nj = nth_pairs [OF assms(3), of "\<lambda>s. or0 (timestampBegin s)" "\<lambda>s. or0 (timestampEnd s)"]
  have "?fb ! (2 * i) \<le> ?fb ! (2 * j)"
    using assms(2,3) len by (intro sorted_nth_mono [OF s]) simp_all
  with ni nj show "or0 (timestampBegin (sprites a ! i)) \<le> or0 (timestampBegin (sprites a ! j))"
    by simp
  have "?fb ! (2 * i + 1) \<le> ?fb ! (2 * j + 1)"
    using assms(2,3) len by (intro sorted_nth_mono [OF s]) simp_all
  with ni nj show "or0 (timestampEnd (sprites a ! i)) \<le> or0 (timestampEnd (sprites a ! j))"
    by simp
  have "?fb ! (2 * i) \<le> ?fb ! (2 * j + 1)"
    using assms(2,3) len by (intro sorted_nth_mono [OF s]) simp_all
  with ni nj show "or0 (timestampBegin (sprites a ! i)) \<le> or0 (timestampEnd (sprites a ! j))"
    by simp
  show "or0 (timestampEnd (sprites a ! i)) \<le> or0 (timestampBegin (sprites a ! j))" if "i < j"
  proof -
    have "?fb ! (2 * i + 1) \<le> ?fb ! (2 * j)"
      using that assms(3) len by (intro sorted_nth_mono [OF s]) simp_all
    with ni nj show ?thesis by simp
  qed
qed

lemma playback_order_bounds:
  assumes "in_playback_order a" and "F < length (sprites a)"
  shows "sorted (frame_bounds a)"
    and "0 \<le> or0 (timestampBegin (sprites a ! F))"
    and "or0 (timestampEnd (sprites a ! F)) \<le> totalDurationMs a"
proof -
  from assms(1) have s: "sorted (frame_bounds a)"
    and all: "\<forall>x \<in> set (frame_bounds a). 0 \<le> x \<and> x \<le> totalDurationMs a"
    by (auto simp: in_playback_order_def sorted_append)
  show "sorted (frame_bounds a)" by (rule s)
  have len: "length (frame_bounds a) = 2 * length (sprites a)"
    unfolding frame_bounds_def by (rule length_pairs)
  note n = nth_pairs [OF assms(2), of "\<lambda>s. or0 (timestampBegin s)" "\<lambda>s. or0 (timestampEnd s)",
      folded frame_bounds_def]
  have "frame_bounds a ! (2 * F) \<in> set (frame_bounds a)"
    using assms(2) len by (intro nth_mem) simp
  with all n show "0 \<le> or0 (timestampBegin (sprites a ! F))" by auto
  have "frame_bounds a ! (2 * F + 1) \<in> set (frame_bounds a)"
    using assms(2) len by (intro nth_mem) simp
  with all n show "or0 (timestampEnd (sprites a ! F)) \<le> totalDurationMs a" by auto
qed

text \<open>\<^verbatim>\<open>addSprite\<close> keeps the frames in playback order when the duration is not negative.\<close>

lemma or0_Some [simp]: "or0 (Some v) = v"
  by (simp add: or0_def)

lemma addSprite_in_playback_order:
  assumes "in_playback_order a" and "0 \<le> nullish0 (p_duration p)"
  shows "in_playback_order (addSprite p a)"
proof -
  have fb: "frame_bounds (addSprite p a)
              = frame_bounds a @ [totalDurationMs a, totalDurationMs a + nullish0 (p_duration p)]"
    by (simp add: frame_bounds_def addSprite_def)
  have tot: "totalDurationMs (addSprite p a) = totalDurationMs a + nullish0 (p_duration p)"
    by (simp add: addSprite_def)
  from assms show ?thesis
    unfolding in_playback_order_def fb tot
    by (auto simp: sorted_append)
qed

lemma build_in_playback_order:
  assumes "\<forall>nd \<in> set nds. 0 \<le> snd nd"
  shows "in_playback_order (build l nds)"
  using assms unfolding build_def
proof (induction nds rule: rev_induct)
  case Nil
  show ?case by (simp add: in_playback_order_def frame_bounds_def new_Animation_def)
next
  case (snoc nd nds)
  then have "in_playback_order (foldl (\<lambda>a nd. addSprite (frame nd) a) (new_Animation l) nds)"
    by simp
  moreover from snoc.prems have "0 \<le> nullish0 (p_duration (frame nd))"
    by (simp add: frame_def nullish0_def)
  ultimately show ?case by (simp add: addSprite_in_playback_order)
qed

text \<open>Between whole bounds the midpoint is the one of integer division.\<close>

lemma midpoint_nat:
  assumes "l \<le> h"
  shows "real l + of_int \<lfloor>(real h - real l) / 2\<rfloor> = real (l + (h - l) div 2)"
proof -
  have "(real h - real l) / 2 = of_int (int (h - l)) / of_int 2"
    using assms by simp
  then have "\<lfloor>(real h - real l) / 2\<rfloor> = int (h - l) div 2"
    by (simp only: floor_divide_of_int_eq)
  also have "\<dots> = int ((h - l) div 2)" by simp
  finally show ?thesis by simp
qed

lemma is_index_nat: "is_index a (real m) \<longleftrightarrow> m < length (sprites a)"
  by (simp add: is_index_def)

text \<open>A time strictly inside frame \<open>F\<close> is found by the search on any range that holds \<open>F\<close>.\<close>

lemma search_finds:
  "sorted (frame_bounds a) \<Longrightarrow> F < length (sprites a) \<Longrightarrow> contains_now a t (real F) \<Longrightarrow>
   lo = real l \<Longrightarrow> hi = real h \<Longrightarrow> l \<le> F \<Longrightarrow> F \<le> h \<Longrightarrow> h < length (sprites a) \<Longrightarrow>
     getAnimIndex_loop a t lastIndex lo hi = Inr (real F)"
proof (induction a t lastIndex lo hi arbitrary: l h rule: getAnimIndex_loop.induct)
  case (1 a t lastIndex lo hi)
  define m where "m = l + (h - l) div 2"
  have lh: "l \<le> h" using "1.prems" by simp
  have mid: "lo + of_int \<lfloor>(hi - lo) / 2\<rfloor> = real m"
    unfolding m_def "1.prems"(4,5) by (rule midpoint_nat [OF lh])
  have mb: "l \<le> m" "m \<le> h" using lh by (simp_all add: m_def)
  have mi: "is_index a (real m)" using mb "1.prems"(8) by (simp add: is_index_nat)
  have le: "lo \<le> hi" using lh "1.prems"(4,5) by simp
  note ord = "1.prems"(1)
  have Fc: "t < or0 (timestampEnd (sprites a ! F)) + timestampStart a"
    "or0 (timestampBegin (sprites a ! F)) + timestampStart a < t"
    using "1.prems"(3) by (simp_all add: contains_now_def endTime_def beginTime_def)
  have unfold: "getAnimIndex_loop a t lastIndex lo hi =
      (if contains_now a t (real m) then Inr (real m)
       else if endTime a (real m) \<le> t then getAnimIndex_loop a t (real m) (real m + 1) hi
       else getAnimIndex_loop a t (real m) lo (real m - 1))"
    by (subst getAnimIndex_loop.simps) (simp add: le mid mi)
  show ?case
  proof (cases "contains_now a t (real m)")
    case True
    then have mc: "t < or0 (timestampEnd (sprites a ! m)) + timestampStart a"
      "or0 (timestampBegin (sprites a ! m)) + timestampStart a < t"
      by (simp_all add: contains_now_def endTime_def beginTime_def)
    have "m = F"
    proof (rule ccontr)
      assume "m \<noteq> F"
      then consider "m < F" | "F < m" by linarith
      then show False
      proof cases
        case 1
        from playback_order_nth(4) [OF ord _ "1.prems"(2) 1] 1 mc Fc show False by simp
      next
        case 2
        have "m < length (sprites a)" using mb "1.prems"(8) by simp
        from playback_order_nth(4) [OF ord _ this 2] 2 mc Fc show False by simp
      qed
    qed
    with True unfold show ?thesis by simp
  next
    case False
    show ?thesis
    proof (cases "endTime a (real m) \<le> t")
      case True
      have "m < F"
      proof (rule ccontr)
        assume "\<not> m < F"
        then have "F \<le> m" by simp
        moreover have "m < length (sprites a)" using mb "1.prems"(8) by simp
        ultimately have "or0 (timestampEnd (sprites a ! F)) \<le> or0 (timestampEnd (sprites a ! m))"
          by (intro playback_order_nth(2) [OF ord])
        with True Fc show False by (simp add: endTime_def)
      qed
      have IH: "getAnimIndex_loop a t (real m) (real m + 1) hi = Inr (real F)"
      proof (rule "1.IH"(1) [unfolded mid, OF le _ False True ord "1.prems"(2,3) _ "1.prems"(5) _ "1.prems"(7,8)])
        show "\<not> \<not> is_index a (real m)" using mi by simp
        show "real m + 1 = real (m + 1)" by simp
        show "m + 1 \<le> F" using \<open>m < F\<close> by simp
      qed
      with False True unfold show ?thesis by simp
    next
      case notge: False
      have "F < m"
      proof (rule ccontr)
        assume "\<not> F < m"
        then have "m \<le> F" by simp
        then have "or0 (timestampBegin (sprites a ! m)) \<le> or0 (timestampBegin (sprites a ! F))"
          by (intro playback_order_nth(1) [OF ord _ "1.prems"(2)])
        moreover from False notge have "t \<le> beginTime a (real m)"
          by (simp add: contains_now_def)
        ultimately show False using Fc by (simp add: beginTime_def)
      qed
      have IH: "getAnimIndex_loop a t (real m) lo (real m - 1) = Inr (real F)"
      proof (rule "1.IH"(2) [unfolded mid, OF le _ False notge ord "1.prems"(2,3,4) _ "1.prems"(6)])
        show "\<not> \<not> is_index a (real m)" using mi by simp
        show "real m - 1 = real (m - 1)" using \<open>F < m\<close> by simp
        show "F \<le> m - 1" using \<open>F < m\<close> by simp
        show "m - 1 < length (sprites a)" using mb "1.prems"(8) by simp
      qed
      with False notge unfold show ?thesis by simp
    qed
  qed
qed

section \<open>addSprite\<close>

lemma foldl_addSprite_invariant:
  "totalDurationMs (foldl (\<lambda>a p. addSprite p a) (new_Animation l) ps)
       = sum_list (map (\<lambda>p. nullish0 (p_duration p)) ps)
   \<and> length (sprites (foldl (\<lambda>a p. addSprite p a) (new_Animation l) ps)) = length ps
   \<and> (\<forall>i < length ps.
         durationUpToNow (sprites (foldl (\<lambda>a p. addSprite p a) (new_Animation l) ps) ! i)
           = sum_list (map (\<lambda>p. nullish0 (p_duration p)) (take i ps)))"
proof (induction ps rule: rev_induct)
  case Nil
  show ?case by (simp add: new_Animation_def)
next
  case (snoc p ps)
  let ?b = "foldl (\<lambda>a p. addSprite p a) (new_Animation l) ps"
  from snoc have tot: "totalDurationMs ?b = sum_list (map (\<lambda>p. nullish0 (p_duration p)) ps)"
    and len: "length (sprites ?b) = length ps"
    and pre: "\<And>i. i < length ps \<Longrightarrow> durationUpToNow (sprites ?b ! i)
           = sum_list (map (\<lambda>p. nullish0 (p_duration p)) (take i ps))"
    by simp_all
  have "durationUpToNow (sprites (addSprite p ?b) ! i)
           = sum_list (map (\<lambda>p. nullish0 (p_duration p)) (take i (ps @ [p])))"
    if "i < length (ps @ [p])" for i
  proof (cases "i < length ps")
    case True
    then show ?thesis using pre [OF True] len by (simp add: addSprite_def nth_append)
  next
    case False
    with that have "i = length ps" by simp
    then show ?thesis using tot len by (simp add: addSprite_def nth_append)
  qed
  moreover have "totalDurationMs (addSprite p ?b)
       = sum_list (map (\<lambda>p. nullish0 (p_duration p)) (ps @ [p]))"
    using tot by (simp add: addSprite_def)
  moreover have "length (sprites (addSprite p ?b)) = length (ps @ [p])"
    using len by (simp add: addSprite_def)
  ultimately show ?case by simp
qed

text \<open>
  Claim C4. \<^verbatim>\<open>addSprite\<close> appends exactly one frame: its \<open>durationUpToNow\<close> and its
  \<open>timestampBegin\<close> are the \<open>totalDurationMs\<close> before the call, its \<open>timestampEnd\<close> is that
  value plus the duration of the descriptor (0 when absent), its \<open>hasPlayedSound\<close> is
  false; and \<open>totalDurationMs\<close> grows by that duration. So after any sequence of calls of
  \<^verbatim>\<open>addSprite\<close> on a new Animation, \<open>totalDurationMs\<close> is the sum of the durations appended,
  and the \<open>durationUpToNow\<close> of frame \<open>i\<close> is the sum of the durations of the frames before
  it.
\<close>

theorem addSprite_appends_frame:
  "(\<exists>s. sprites (addSprite p a) = sprites a @ [s]
        \<and> durationUpToNow s = totalDurationMs a
        \<and> timestampBegin s = Some (totalDurationMs a)
        \<and> timestampEnd s = Some (totalDurationMs a + (case p_duration p of None \<Rightarrow> 0 | Some d \<Rightarrow> d))
        \<and> duration s = (case p_duration p of None \<Rightarrow> 0 | Some d \<Rightarrow> d)
        \<and> \<not> hasPlayedSound s)
   \<and> totalDurationMs (addSprite p a)
       = totalDurationMs a + (case p_duration p of None \<Rightarrow> 0 | Some d \<Rightarrow> d)
   \<and> totalDurationMs (foldl (\<lambda>a p. addSprite p a) (new_Animation l) ps)
       = sum_list (map (\<lambda>p. case p_duration p of None \<Rightarrow> 0 | Some d \<Rightarrow> d) ps)
   \<and> length (sprites (foldl (\<lambda>a p. addSprite p a) (new_Animation l) ps)) = length ps
   \<and> (\<forall>i < length ps.
         durationUpToNow (sprites (foldl (\<lambda>a p. addSprite p a) (new_Animation l) ps) ! i)
           = sum_list (map (\<lambda>p. case p_duration p of None \<Rightarrow> 0 | Some d \<Rightarrow> d) (take i ps)))"
proof -
  have n: "(\<lambda>p. case p_duration p of None \<Rightarrow> 0 | Some d \<Rightarrow> d) = (\<lambda>p. nullish0 (p_duration p))"
    by (simp add: nullish0_def fun_eq_iff)
  have one: "\<exists>s. sprites (addSprite p a) = sprites a @ [s]
        \<and> durationUpToNow s = totalDurationMs a
        \<and> timestampBegin s = Some (totalDurationMs a)
        \<and> timestampEnd s = Some (totalDurationMs a + (case p_duration p of None \<Rightarrow> 0 | Some d \<Rightarrow> d))
        \<and> duration s = (case p_duration p of None \<Rightarrow> 0 | Some d \<Rightarrow> d)
        \<and> \<not> hasPlayedSound s"
    by (simp add: addSprite_def nullish0_def)
  have tot: "totalDurationMs (addSprite p a)
       = totalDurationMs a + (case p_duration p of None \<Rightarrow> 0 | Some d \<Rightarrow> d)"
    by (simp add: addSprite_def nullish0_def)
  from one tot foldl_addSprite_invariant [of l ps] show ?thesis
    unfolding n by blast
qed

text \<open>The frames \<open>a\<close> (100 ms) and \<open>b\<close> (50 ms): the total is 150 and frame 1 begins at 100.\<close>

theorem addSprite_appends_frame_witness:
  "(1::nat) < length [frame (''a'', 100), frame (''b'', 50)]
   \<and> sum_list (map (\<lambda>p. case p_duration p of None \<Rightarrow> 0 | Some d \<Rightarrow> d)
                      (take 1 [frame (''a'', 100), frame (''b'', 50)])) = 100
   \<and> durationUpToNow (sprites (foldl (\<lambda>a p. addSprite p a) (new_Animation False)
                                  [frame (''a'', 100), frame (''b'', 50)]) ! 1) = 100
   \<and> totalDurationMs (foldl (\<lambda>a p. addSprite p a) (new_Animation False)
                                  [frame (''a'', 100), frame (''b'', 50)]) = 150"
proof -
  have l: "(1::nat) < length [frame (''a'', 100), frame (''b'', 50)]" by simp
  have p: "sum_list (map (\<lambda>p. case p_duration p of None \<Rightarrow> 0 | Some d \<Rightarrow> d)
                      (take 1 [frame (''a'', 100), frame (''b'', 50)])) = 100"
    by (simp add: frame_def)
  have t: "sum_list (map (\<lambda>p. case p_duration p of None \<Rightarrow> 0 | Some d \<Rightarrow> d)
                      [frame (''a'', 100), frame (''b'', 50)]) = 150"
    by (simp add: frame_def)
  from addSprite_appends_frame [of "frame (''a'', 100)" "new_Animation False" False
          "[frame (''a'', 100), frame (''b'', 50)]"]
  have all: "\<forall>i < length [frame (''a'', 100), frame (''b'', 50)].
      durationUpToNow (sprites (foldl (\<lambda>a p. addSprite p a) (new_Animation False)
                                  [frame (''a'', 100), frame (''b'', 50)]) ! i)
        = sum_list (map (\<lambda>p. case p_duration p of None \<Rightarrow> 0 | Some d \<Rightarrow> d)
                      (take i [frame (''a'', 100), frame (''b'', 50)]))"
    and tot: "totalDurationMs (foldl (\<lambda>a p. addSprite p a) (new_Animation False)
                                  [frame (''a'', 100), frame (''b'', 50)])
        = sum_list (map (\<lambda>p. case p_duration p of None \<Rightarrow> 0 | Some d \<Rightarrow> d)
                      [frame (''a'', 100), frame (''b'', 50)])"
    by blast+
  from all l have "durationUpToNow (sprites (foldl (\<lambda>a p. addSprite p a) (new_Animation False)
                                  [frame (''a'', 100), frame (''b'', 50)]) ! 1)
        = sum_list (map (\<lambda>p. case p_duration p of None \<Rightarrow> 0 | Some d \<Rightarrow> d)
                      (take 1 [frame (''a'', 100), frame (''b'', 50)]))"
    by blast
  with l p t tot show ?thesis by simp
qed

section \<open>createAnimation\<close>

text \<open>
  Claim C5. The claim: \<^verbatim>\<open>createAnimation(name)\<close> fails if and only if \<open>name\<close> is not
  \<open>invisible\<close> and no builder is registered under \<open>name\<close>, and the error then carries the
  requested name. The code at the input below fails with another error: with nothing
  registered, \<^verbatim>\<open>animationBuilders['toString']\<close> is the function the object literal
  inherits, the branch \<^verbatim>\<open>if (builder)\<close> is taken, and the call throws a \<^verbatim>\<open>TypeError\<close>
  that does not name the animation (and \<^verbatim>\<open>hasAnimation('toString')\<close> is true). A name
  that is not inherited, as \<open>nonexistent\<close>, gets the error of the last line of the function,
  with the name in its message.
\<close>

theorem createAnimation_inherited_name_throws:
  "''toString'' \<noteq> ''invisible''
   \<and> object_literal ''toString'' = NotABuilder
   \<and> hasAnimation object_literal ''toString''
   \<and> fst (createAnimation object_literal 0 ''toString'') = Inl TypeError
   \<and> fst (createAnimation object_literal 0 ''nonexistent'')
       = Inl (Error (''No animation exists which is named '' @ [CHR 0x27] @ ''nonexistent'' @ [CHR 0x27]))"
  by (simp add: createAnimation_def object_literal_def object_prototype_names_def
      hasAnimation_def truthy_def no_animation_message_def)

text \<open>
  Claim C6, as amended. \<^verbatim>\<open>createAnimation("invisible")\<close> does not read the registry and
  returns, whatever the registry and the clock, the same non-looping Animation of exactly
  one frame, whose frame name is \<open>invisible\<close> and whose duration is 100 ms. The \<open>name\<close> field
  of the Animation itself is the empty string that the constructor set: only an Animation
  made by a builder gets its name stamped.
\<close>

theorem createAnimation_invisible:
  "\<exists>a s. (\<forall>reg now. createAnimation reg now ''invisible'' = (Inr a, reg))
       \<and> \<not> loop a \<and> sprites a = [s] \<and> name s = ''invisible'' \<and> duration s = 100
       \<and> totalDurationMs a = 100 \<and> anim_name a = ''''"
  by (simp add: createAnimation_def eval_defs)

text \<open>
  Claim C6 as stated says that the \<open>name\<close> field of the Animation returned for
  \<open>invisible\<close> is \<open>invisible\<close>; it is the empty string.
\<close>

theorem createAnimation_invisible_name_counterexample:
  "\<not> isl (fst (createAnimation object_literal 0 ''invisible''))
   \<and> anim_name (projr (fst (createAnimation object_literal 0 ''invisible''))) = ''''
   \<and> anim_name (projr (fst (createAnimation object_literal 0 ''invisible''))) \<noteq> ''invisible''"
  by (simp add: createAnimation_def eval_defs)

text \<open>
  Claim C7, as amended. For a registered name other than \<open>invisible\<close>,
  \<^verbatim>\<open>createAnimation\<close> returns what the builder made, with the \<open>name\<close> field stamped with the
  requested name and \<^verbatim>\<open>start()\<close> called on it: \<open>timestampStart\<close> is the clock time of the
  creation. For \<open>invisible\<close> the Animation is returned without a call of \<^verbatim>\<open>start()\<close>: its
  \<open>timestampStart\<close> is the 0 of the constructor.
\<close>

theorem createAnimation_started:
  "(animName \<noteq> ''invisible'' \<and> reg animName = Builder builder \<longrightarrow>
      fst (createAnimation reg now animName) = Inr (start now ((builder ())\<lparr>anim_name := animName\<rparr>))
      \<and> timestampStart (projr (fst (createAnimation reg now animName))) = now
      \<and> anim_name (projr (fst (createAnimation reg now animName))) = animName)
   \<and> timestampStart (projr (fst (createAnimation reg now ''invisible''))) = 0"
  by (simp add: createAnimation_def eval_defs)

text \<open>A builder registered under \<open>walk\<close>, asked for at clock time 5.\<close>

theorem createAnimation_started_witness:
  "''walk'' \<noteq> ''invisible''
   \<and> (object_literal(''walk'' := Builder (\<lambda>u. build True [(''w'', 40)]))) ''walk''
       = Builder (\<lambda>u. build True [(''w'', 40)])
   \<and> timestampStart (projr (fst (createAnimation
        (object_literal(''walk'' := Builder (\<lambda>u. build True [(''w'', 40)]))) 5 ''walk''))) = 5
   \<and> anim_name (projr (fst (createAnimation
        (object_literal(''walk'' := Builder (\<lambda>u. build True [(''w'', 40)]))) 5 ''walk''))) = ''walk''"
  using createAnimation_started [of "''walk''"
          "object_literal(''walk'' := Builder (\<lambda>u. build True [(''w'', 40)]))"
          "\<lambda>u. build True [(''w'', 40)]" 5]
  by (simp add: start_def)

text \<open>
  Claim C7 as stated says that the Animation returned for \<open>invisible\<close> has been started;
  created at clock time 5, its \<open>timestampStart\<close> is 0.
\<close>

theorem createAnimation_invisible_not_started_counterexample:
  "\<not> isl (fst (createAnimation object_literal 5 ''invisible''))
   \<and> timestampStart (projr (fst (createAnimation object_literal 5 ''invisible''))) = 0
   \<and> timestampStart (projr (fst (createAnimation object_literal 5 ''invisible''))) \<noteq> 5"
  by (simp add: createAnimation_def eval_defs)

section \<open>update and the done flag\<close>

text \<open>No call changes \<open>loop\<close>.\<close>

lemma update_wrap_loop [simp]: "loop (update_wrap now a) = loop a"
  by (simp add: update_wrap_def Let_def start_def reset_def)

lemma update_done_loop [simp]: "loop (update_done now a) = loop a"
  by (simp add: update_done_def)

lemma after_update_loop [simp]: "loop (after_update now a) = loop a"
  by (simp add: after_update_def update_def split: sum.splits)

lemma perform_loop [simp]: "loop (perform a c) = loop a"
  by (cases c) (simp_all add: reset_def start_def addSprite_def setCurrentSprite_def)

lemma perform_all_loop [simp]: "loop (perform_all a cs) = loop a"
  unfolding perform_all_def by (induction cs arbitrary: a) simp_all

text \<open>The flag is set only on a non-looping Animation: an invariant of every call.\<close>

lemma update_wrap_done_only_if: "is_done a \<longrightarrow> \<not> loop a \<Longrightarrow> is_done (update_wrap now a) \<longrightarrow> \<not> loop a"
  by (simp add: update_wrap_def Let_def start_def reset_def)

lemma after_update_done_only_if:
  "is_done a \<longrightarrow> \<not> loop a \<Longrightarrow> is_done (after_update now a) \<longrightarrow> \<not> loop a"
  using update_wrap_done_only_if [of a now]
  by (auto simp: after_update_def update_def update_done_def split: sum.splits if_splits)

lemma perform_done_only_if:
  "is_done a \<longrightarrow> \<not> loop a \<Longrightarrow> is_done (perform a c) \<longrightarrow> \<not> loop (perform a c)"
  using after_update_done_only_if [of a]
  by (cases c) (simp_all add: reset_def start_def addSprite_def setCurrentSprite_def)

lemma perform_all_done_only_if:
  "is_done a \<longrightarrow> \<not> loop a \<Longrightarrow> is_done (perform_all a cs) \<longrightarrow> \<not> loop a"
  unfolding perform_all_def
proof (induction cs arbitrary: a)
  case Nil
  then show ?case by simp
next
  case (Cons c cs)
  from perform_done_only_if [OF Cons.prems, of c]
  have "is_done (perform a c) \<longrightarrow> \<not> loop (perform a c)" .
  from Cons.IH [OF this] show ?case by simp
qed

text \<open>
  Claim C2. The claim: \<open>done\<close> is true only if \<open>loop\<close> is false; for a non-looping
  Animation started at \<open>timestampStart\<close>, a call of \<^verbatim>\<open>update\<close> at \<open>now\<close> sets \<open>done\<close> exactly
  when \<open>now - timestampStart \<ge> totalDurationMs\<close>; and \<open>done\<close> stays true until
  \<^verbatim>\<open>reset()\<close>. The code at the input below does not set the flag: on a non-looping
  Animation of one frame of 100 ms, started at 0, after \<^verbatim>\<open>setCurrentSprite(-1)\<close>, the call
  of \<^verbatim>\<open>update\<close> at 1000 throws in \<^verbatim>\<open>getAnimIndex\<close>, before the test of the elapsed time,
  and \<open>done\<close> is still false although the duration has elapsed.
\<close>

theorem update_throws_before_done:
  "\<not> loop (setCurrentSprite (- 1) (start 0 (build False [(''a'', 100)])))
   \<and> 1000 - timestampStart (setCurrentSprite (- 1) (start 0 (build False [(''a'', 100)])))
        \<ge> totalDurationMs (setCurrentSprite (- 1) (start 0 (build False [(''a'', 100)])))
   \<and> update 1000 (setCurrentSprite (- 1) (start 0 (build False [(''a'', 100)]))) = Inl TypeError
   \<and> \<not> is_done (after_update 1000 (setCurrentSprite (- 1) (start 0 (build False [(''a'', 100)]))))"
  by (simp add: after_update_def update_def update_wrap_def update_done_def eval_defs
      getAnimIndex_loop.simps)

section \<open>The wrap of a looping Animation\<close>

lemma update_wrap_wraps:
  assumes "loop a" and "currentSpriteIndex a = real (length (sprites a)) - 1"
    and "now - timestampStart a > totalDurationMs a"
  shows "update_wrap now a =
           a\<lparr>is_done := False, currentSpriteIndex := 0,
             timestampStart :=
               (if now - (timestampStart a + totalDurationMs a) < totalDurationMs a
                then timestampStart a + totalDurationMs a else now)\<rparr>"
  using assms by (simp add: update_wrap_def Let_def start_def reset_def)

lemma update_wrap_stays:
  assumes "\<not> (loop a \<and> currentSpriteIndex a = real (length (sprites a)) - 1
              \<and> now - timestampStart a > totalDurationMs a)"
  shows "update_wrap now a = a"
  using assms by (auto simp: update_wrap_def)

text \<open>The call of \<^verbatim>\<open>update\<close> that wraps: the object it returns.\<close>

lemma update_wrapped:
  assumes "loop a" and "currentSpriteIndex a = real (length (sprites a)) - 1"
    and "now - timestampStart a > totalDurationMs a"
    and T: "T = (if now - (timestampStart a + totalDurationMs a) < totalDurationMs a
                 then timestampStart a + totalDurationMs a else now)"
  shows "\<exists>i. getAnimIndex
               (a\<lparr>is_done := False, currentSpriteIndex := 0, timestampStart := T\<rparr>) now = Inr i
             \<and> update now a =
                 Inr (a\<lparr>is_done := False, currentSpriteIndex := i, timestampStart := T\<rparr>)"
proof -
  define w where "w = a\<lparr>is_done := False, currentSpriteIndex := 0, timestampStart := T\<rparr>"
  have uw: "update_wrap now a = w"
    unfolding w_def T by (rule update_wrap_wraps [OF assms(1,2,3)])
  have "whole (currentSpriteIndex w)" "0 \<le> currentSpriteIndex w" by (simp_all add: w_def)
  from getAnimIndex_whole_index [OF this, of now]
  obtain i where i: "getAnimIndex w now = Inr i" by blast
  have "loop w" using assms(1) by (simp add: w_def)
  then have "update now a = Inr (w\<lparr>currentSpriteIndex := i\<rparr>)"
    by (simp add: update_def uw i update_done_def)
  then have "update now a = Inr (a\<lparr>is_done := False, currentSpriteIndex := i, timestampStart := T\<rparr>)"
    by (simp add: w_def)
  with i show ?thesis unfolding w_def by blast
qed

text \<open>A call of \<^verbatim>\<open>update\<close> on a looping Animation before the wrap is due changes neither
  the origin nor the flag.\<close>

lemma after_update_no_wrap:
  assumes "loop a" and "now - timestampStart a \<le> totalDurationMs a"
  shows "timestampStart (after_update now a) = timestampStart a"
    and "is_done (after_update now a) = is_done a"
proof -
  have w: "update_wrap now a = a" using assms(2) by (intro update_wrap_stays) simp
  show "timestampStart (after_update now a) = timestampStart a"
    using assms(1) by (simp add: after_update_def update_def w update_done_def split: sum.splits)
  show "is_done (after_update now a) = is_done a"
    using assms(1) by (simp add: after_update_def update_def w update_done_def split: sum.splits)
qed

text \<open>
  Claim C3, as amended. For a looping Animation, when \<^verbatim>\<open>update\<close> is called at \<open>now\<close>
  while \<open>currentSpriteIndex\<close> is \<open>sprites.length - 1\<close> and strictly more than
  \<open>totalDurationMs\<close> has elapsed since \<open>timestampStart\<close>
  (\<open>now - timestampStart > totalDurationMs\<close>), then with
  \<open>newStart = timestampStart + totalDurationMs\<close> the resulting \<open>timestampStart\<close> is
  \<open>newStart\<close> if \<open>now - newStart < totalDurationMs\<close> and \<open>now\<close> otherwise; \<open>done\<close> is
  cleared, and the resulting \<open>currentSpriteIndex\<close> is what \<^verbatim>\<open>getAnimIndex(now)\<close> finds
  after the index was reset to 0 and the origin re-based. When
  \<open>now - timestampStart \<le> totalDurationMs\<close>, and so when exactly the total duration has
  elapsed, the call does not re-base: \<open>timestampStart\<close> and \<open>done\<close> stay as they were.
\<close>

theorem update_loop_rebase:
  "(loop a \<and> currentSpriteIndex a = real (length (sprites a)) - 1
      \<and> now - timestampStart a > totalDurationMs a \<longrightarrow>
      (\<exists>i. getAnimIndex
               (a\<lparr>is_done := False, currentSpriteIndex := 0,
                  timestampStart :=
                    (if now - (timestampStart a + totalDurationMs a) < totalDurationMs a
                     then timestampStart a + totalDurationMs a else now)\<rparr>) now = Inr i
             \<and> update now a =
                 Inr (a\<lparr>is_done := False, currentSpriteIndex := i,
                        timestampStart :=
                          (if now - (timestampStart a + totalDurationMs a) < totalDurationMs a
                           then timestampStart a + totalDurationMs a else now)\<rparr>)))
   \<and> (loop a \<and> now - timestampStart a \<le> totalDurationMs a \<longrightarrow>
        timestampStart (after_update now a) = timestampStart a
        \<and> is_done (after_update now a) = is_done a)"
  using update_wrapped [OF _ _ _ refl, of a now] after_update_no_wrap [of a now]
  by blast

text \<open>
  The looping frames \<open>a\<close> (100 ms) and \<open>b\<close> (50 ms), started at 0 and on the last frame:
  \<^verbatim>\<open>update\<close> at 160 re-bases the origin to 150, \<^verbatim>\<open>update\<close> at 500 (more than a cycle
  late) to 500, and \<^verbatim>\<open>update\<close> at 140 leaves it at 0.
\<close>

theorem update_loop_rebase_witness:
  "loop (setCurrentSprite 1 (start 0 (build True [(''a'', 100), (''b'', 50)])))
   \<and> currentSpriteIndex (setCurrentSprite 1 (start 0 (build True [(''a'', 100), (''b'', 50)])))
       = real (length (sprites (setCurrentSprite 1 (start 0 (build True [(''a'', 100), (''b'', 50)]))))) - 1
   \<and> 160 - timestampStart (setCurrentSprite 1 (start 0 (build True [(''a'', 100), (''b'', 50)])))
       > totalDurationMs (setCurrentSprite 1 (start 0 (build True [(''a'', 100), (''b'', 50)])))
   \<and> update 160 (setCurrentSprite 1 (start 0 (build True [(''a'', 100), (''b'', 50)])))
       = Inr ((start 150 (build True [(''a'', 100), (''b'', 50)]))\<lparr>currentSpriteIndex := 0\<rparr>)
   \<and> 500 - timestampStart (setCurrentSprite 1 (start 0 (build True [(''a'', 100), (''b'', 50)])))
       > totalDurationMs (setCurrentSprite 1 (start 0 (build True [(''a'', 100), (''b'', 50)])))
   \<and> update 500 (setCurrentSprite 1 (start 0 (build True [(''a'', 100), (''b'', 50)])))
       = Inr ((start 500 (build True [(''a'', 100), (''b'', 50)]))\<lparr>currentSpriteIndex := 0\<rparr>)
   \<and> 140 - timestampStart (setCurrentSprite 1 (start 0 (build True [(''a'', 100), (''b'', 50)])))
       \<le> totalDurationMs (setCurrentSprite 1 (start 0 (build True [(''a'', 100), (''b'', 50)])))
   \<and> timestampStart (after_update 140 (setCurrentSprite 1 (start 0 (build True [(''a'', 100), (''b'', 50)])))) = 0"
proof -
  define A where "A = setCurrentSprite 1 (start 0 (build True [(''a'', 100), (''b'', 50)]))"
  have h1: "loop A" by (simp add: A_def eval_defs)
  have h2: "currentSpriteIndex A = real (length (sprites A)) - 1" by (simp add: A_def eval_defs)
  have h3: "160 - timestampStart A > totalDurationMs A" by (simp add: A_def eval_defs)
  have h4: "500 - timestampStart A > totalDurationMs A" by (simp add: A_def eval_defs)
  have h5: "140 - timestampStart A \<le> totalDurationMs A" by (simp add: A_def eval_defs)
  have ts: "timestampStart A = 0" by (simp add: A_def eval_defs)
  have g1: "getAnimIndex (A\<lparr>is_done := False, currentSpriteIndex := 0, timestampStart := 150\<rparr>) 160 = Inr 0"
    by (simp add: A_def eval_defs getAnimIndex_loop.simps)
  have g2: "getAnimIndex (A\<lparr>is_done := False, currentSpriteIndex := 0, timestampStart := 500\<rparr>) 500 = Inr 0"
    by (simp add: A_def eval_defs getAnimIndex_loop.simps)
  have t1: "(if 160 - (timestampStart A + totalDurationMs A) < totalDurationMs A
             then timestampStart A + totalDurationMs A else 160) = 150"
    by (simp add: A_def eval_defs)
  have t2: "(if 500 - (timestampStart A + totalDurationMs A) < totalDurationMs A
             then timestampStart A + totalDurationMs A else 500) = 500"
    by (simp add: A_def eval_defs)
  from update_loop_rebase [of A 160] h1 h2 h3 have
    u1: "update 160 A = Inr (A\<lparr>is_done := False, currentSpriteIndex := 0, timestampStart := 150\<rparr>)"
    unfolding t1 g1 by auto
  from update_loop_rebase [of A 500] h1 h2 h4 have
    u2: "update 500 A = Inr (A\<lparr>is_done := False, currentSpriteIndex := 0, timestampStart := 500\<rparr>)"
    unfolding t2 g2 by auto
  from update_loop_rebase [of A 140] h1 h5 ts have
    u3: "timestampStart (after_update 140 A) = 0"
    by auto
  have e1: "A\<lparr>is_done := False, currentSpriteIndex := 0, timestampStart := 150\<rparr>
             = (start 150 (build True [(''a'', 100), (''b'', 50)]))\<lparr>currentSpriteIndex := 0\<rparr>"
    by (simp add: A_def eval_defs)
  have e2: "A\<lparr>is_done := False, currentSpriteIndex := 0, timestampStart := 500\<rparr>
             = (start 500 (build True [(''a'', 100), (''b'', 50)]))\<lparr>currentSpriteIndex := 0\<rparr>"
    by (simp add: A_def eval_defs)
  from u1 e1 have v1: "update 160 A
      = Inr ((start 150 (build True [(''a'', 100), (''b'', 50)]))\<lparr>currentSpriteIndex := 0\<rparr>)"
    by simp
  from u2 e2 have v2: "update 500 A
      = Inr ((start 500 (build True [(''a'', 100), (''b'', 50)]))\<lparr>currentSpriteIndex := 0\<rparr>)"
    by simp
  from h1 h2 h3 h4 h5 v1 v2 u3 show ?thesis unfolding A_def [symmetric] by simp
qed

text \<open>
  Claim C3 as stated covers the call at the moment the total duration has elapsed. The
  same Animation updated at 150, when exactly 150 ms have elapsed: the claim gives the
  origin \<open>newStart = 150\<close> (since \<open>150 - 150 < 150\<close>), and the code, whose test is
  \<open>now - timestampStart > totalDurationMs\<close>, leaves the object as it was, with the origin 0.
\<close>

theorem update_at_exact_duration_counterexample:
  "loop (setCurrentSprite 1 (start 0 (build True [(''a'', 100), (''b'', 50)])))
   \<and> currentSpriteIndex (setCurrentSprite 1 (start 0 (build True [(''a'', 100), (''b'', 50)])))
       = real (length (sprites (setCurrentSprite 1 (start 0 (build True [(''a'', 100), (''b'', 50)]))))) - 1
   \<and> 150 - timestampStart (setCurrentSprite 1 (start 0 (build True [(''a'', 100), (''b'', 50)])))
       = totalDurationMs (setCurrentSprite 1 (start 0 (build True [(''a'', 100), (''b'', 50)])))
   \<and> timestampStart (setCurrentSprite 1 (start 0 (build True [(''a'', 100), (''b'', 50)])))
       + totalDurationMs (setCurrentSprite 1 (start 0 (build True [(''a'', 100), (''b'', 50)]))) = 150
   \<and> 150 - 150 < totalDurationMs (setCurrentSprite 1 (start 0 (build True [(''a'', 100), (''b'', 50)])))
   \<and> update 150 (setCurrentSprite 1 (start 0 (build True [(''a'', 100), (''b'', 50)])))
       = Inr (setCurrentSprite 1 (start 0 (build True [(''a'', 100), (''b'', 50)])))
   \<and> timestampStart (setCurrentSprite 1 (start 0 (build True [(''a'', 100), (''b'', 50)]))) = 0"
  by (simp add: update_def update_wrap_def update_done_def eval_defs getAnimIndex_loop.simps)

section \<open>The frame of a looping Animation, one cycle and more later\<close>

text \<open>An \<^verbatim>\<open>update\<close> without wrap, at a time strictly inside frame \<open>F\<close>, stores \<open>F\<close>.\<close>

lemma update_finds:
  assumes "loop b" and "sorted (frame_bounds b)" and "F < length (sprites b)"
    and "contains_now b now (real F)" and "currentSpriteIndex b = real i" and "i \<le> F"
    and "now - timestampStart b \<le> totalDurationMs b"
  shows "update now b = Inr (b\<lparr>currentSpriteIndex := real F\<rparr>)"
proof -
  have w: "update_wrap now b = b" using assms(7) by (intro update_wrap_stays) simp
  have hi: "real (length (sprites b)) - 1 = real (length (sprites b) - 1)"
    using assms(3) by simp
  have "getAnimIndex b now = Inr (real F)"
    unfolding getAnimIndex_def
    by (rule search_finds [OF assms(2,3,4,5) hi assms(6)]) (use assms(3) in simp_all)
  with assms(1) show ?thesis by (simp add: update_def w update_done_def)
qed

text \<open>
  An \<^verbatim>\<open>update\<close> that wraps without drift, at a time strictly inside frame \<open>F\<close> of the new
  cycle, stores \<open>F\<close> too.
\<close>

lemma update_wrap_finds:
  assumes "loop b" and "currentSpriteIndex b = real (length (sprites b)) - 1"
    and "now - timestampStart b > totalDurationMs b"
    and "now - (timestampStart b + totalDurationMs b) < totalDurationMs b"
    and "sorted (frame_bounds b)" and "F < length (sprites b)"
    and "contains_now (b\<lparr>timestampStart := timestampStart b + totalDurationMs b\<rparr>) now (real F)"
  shows "update now b =
           Inr (b\<lparr>is_done := False, currentSpriteIndex := real F,
                  timestampStart := timestampStart b + totalDurationMs b\<rparr>)"
proof -
  define w where "w = b\<lparr>is_done := False, currentSpriteIndex := 0,
                         timestampStart := timestampStart b + totalDurationMs b\<rparr>"
  have uw: "update_wrap now b = w"
    using update_wrap_wraps [OF assms(1,2,3)] assms(4) by (simp add: w_def)
  have hi: "real (length (sprites w)) - 1 = real (length (sprites w) - 1)"
    using assms(6) by (simp add: w_def)
  have c: "contains_now w now (real F)"
    using assms(7) by (simp add: w_def contains_now_def beginTime_def endTime_def)
  have "getAnimIndex w now = Inr (real F)"
    unfolding getAnimIndex_def
  proof (rule search_finds [OF _ _ c _ hi])
    show "sorted (frame_bounds w)" using assms(5) by (simp add: w_def frame_bounds_def)
    show "F < length (sprites w)" using assms(6) by (simp add: w_def)
    show "currentSpriteIndex w = real 0" by (simp add: w_def)
    show "0 \<le> F" by simp
    show "F \<le> length (sprites w) - 1" using assms(6) by (simp add: w_def)
    show "length (sprites w) - 1 < length (sprites w)" using assms(6) by (simp add: w_def)
  qed
  moreover have "loop w" using assms(1) by (simp add: w_def)
  ultimately have "update now b = Inr (w\<lparr>currentSpriteIndex := real F\<rparr>)"
    by (simp add: update_def uw update_done_def)
  then show ?thesis by (simp add: w_def)
qed

text \<open>
  Claim C9, as amended. Let a looping Animation that is not done have its frames in
  playback order (as \<^verbatim>\<open>addSprite\<close> makes them from durations that are not negative), total
  duration \<open>D\<close> and origin \<open>timestampStart\<close>; let \<open>t\<close> be strictly inside frame \<open>F\<close> of the
  current cycle, not on a frame boundary, and let the current index be at or before \<open>F\<close>.
  Then \<^verbatim>\<open>update\<close> at \<open>t\<close> stores \<open>currentSpriteIndex = F\<close>, and for every integer \<open>k \<ge> 0\<close>
  the \<^verbatim>\<open>update\<close> one or more cycles later stores the same \<open>F\<close> in both states that
  drift-free re-basing leaves:
  \<^item> at \<open>t + k * D\<close>, when the origin has been re-based to \<open>timestampStart + k * D\<close> and the
    index is at or before \<open>F\<close>;
  \<^item> at \<open>t + (k + 1) * D\<close>, when the origin is \<open>timestampStart + k * D\<close> and the Animation
    is on its last frame: this call wraps, and the origin becomes
    \<open>timestampStart + (k + 1) * D\<close>.

  In particular the run of three calls, \<^verbatim>\<open>update\<close> at \<open>t\<close>, at a time \<open>u\<close> strictly inside
  the last frame, and at \<open>t + D\<close>, stores \<open>F\<close> at \<open>t\<close> and at \<open>t + D\<close>, and leaves the
  origin at \<open>timestampStart + D\<close>. \<^verbatim>\<open>isDone()\<close> stays false under every sequence of calls. The times are whole numbers of
  milliseconds up to \<open>2 ^ 53\<close>, where the arithmetic of the code is exact. The stored index
  is not the same in general: a call that finds the Animation before its last frame does
  not wrap, however much time has elapsed, and at a frame boundary the search returns its
  last midpoint.
\<close>

theorem looping_index_periodic:
  assumes "loop a" and "\<not> is_done a" and "in_playback_order a"
    and "F < length (sprites a)" and "contains_now a t (real F)"
    and "currentSpriteIndex a = real i" and "i \<le> F" and "j \<le> F" and "0 \<le> k"
    and "whole t" and "whole (timestampStart a)" and "whole (totalDurationMs a)"
    and "list_all whole (frame_bounds a)"
    and "\<bar>t\<bar> + \<bar>timestampStart a\<bar> + (of_int k + 2) * totalDurationMs a \<le> 2 ^ 53"
  shows "update t a = Inr (a\<lparr>currentSpriteIndex := real F\<rparr>)
     \<and> update (t + of_int k * totalDurationMs a)
         (a\<lparr>timestampStart := timestampStart a + of_int k * totalDurationMs a,
            currentSpriteIndex := real j\<rparr>)
       = Inr (a\<lparr>timestampStart := timestampStart a + of_int k * totalDurationMs a,
                currentSpriteIndex := real F\<rparr>)
     \<and> update (t + of_int (k + 1) * totalDurationMs a)
         (a\<lparr>timestampStart := timestampStart a + of_int k * totalDurationMs a,
            currentSpriteIndex := real (length (sprites a)) - 1\<rparr>)
       = Inr (a\<lparr>timestampStart := timestampStart a + of_int (k + 1) * totalDurationMs a,
                currentSpriteIndex := real F\<rparr>)
     \<and> (whole u \<and> contains_now a u (real (length (sprites a) - 1)) \<longrightarrow>
          currentSpriteIndex (perform_all a [Update t]) = real F
          \<and> perform_all a [Update t, Update u, Update (t + totalDurationMs a)]
              = a\<lparr>timestampStart := timestampStart a + totalDurationMs a,
                   currentSpriteIndex := real F\<rparr>)
     \<and> \<not> isDone (perform_all a cs)"
proof -
  define D where "D = totalDurationMs a"
  define s where "s = timestampStart a"
  define n where "n = length (sprites a)"
  note po = playback_order_bounds [OF assms(3,4)]
  have c: "t < or0 (timestampEnd (sprites a ! F)) + s" "or0 (timestampBegin (sprites a ! F)) + s < t"
    using assms(5) by (simp_all add: contains_now_def endTime_def beginTime_def s_def)
  have lt: "t - s < D" using c(1) po(3) by (simp add: D_def)
  have gt: "0 < t - s" using c(2) po(2) by simp
  have u0: "update t a = Inr (a\<lparr>currentSpriteIndex := real F\<rparr>)"
    by (rule update_finds [OF assms(1) po(1) assms(4,5,6,7)]) (use lt in \<open>simp add: D_def s_def\<close>)
  define a1 where "a1 = a\<lparr>timestampStart := s + of_int k * D, currentSpriteIndex := real j\<rparr>"
  have u1: "update (t + of_int k * D) a1 = Inr (a1\<lparr>currentSpriteIndex := real F\<rparr>)"
  proof (rule update_finds [where i = j])
    show "loop a1" using assms(1) by (simp add: a1_def)
    show "sorted (frame_bounds a1)" using po(1) by (simp add: a1_def frame_bounds_def)
    show "F < length (sprites a1)" using assms(4) by (simp add: a1_def)
    show "contains_now a1 (t + of_int k * D) (real F)"
      using c by (simp add: a1_def contains_now_def endTime_def beginTime_def)
    show "currentSpriteIndex a1 = real j" by (simp add: a1_def)
    show "j \<le> F" by (rule assms(8))
    show "t + of_int k * D - timestampStart a1 \<le> totalDurationMs a1"
      using lt by (simp add: a1_def D_def)
  qed
  have u2: "update (t + of_int (m + 1) * D)
              (a\<lparr>timestampStart := s + of_int m * D, currentSpriteIndex := real n - 1\<rparr>)
            = Inr (a\<lparr>timestampStart := s + of_int (m + 1) * D, currentSpriteIndex := real F\<rparr>)"
    for m :: int
  proof -
    define a2 where "a2 = a\<lparr>timestampStart := s + of_int m * D, currentSpriteIndex := real n - 1\<rparr>"
    have "update (t + of_int (m + 1) * D) a2 =
              Inr (a2\<lparr>is_done := False, currentSpriteIndex := real F,
                       timestampStart := timestampStart a2 + totalDurationMs a2\<rparr>)"
    proof (rule update_wrap_finds)
      show "loop a2" using assms(1) by (simp add: a2_def)
      show "currentSpriteIndex a2 = real (length (sprites a2)) - 1" by (simp add: a2_def n_def)
      show "totalDurationMs a2 < t + of_int (m + 1) * D - timestampStart a2"
        using gt by (simp add: a2_def D_def algebra_simps)
      show "t + of_int (m + 1) * D - (timestampStart a2 + totalDurationMs a2) < totalDurationMs a2"
        using lt by (simp add: a2_def D_def algebra_simps)
      show "sorted (frame_bounds a2)" using po(1) by (simp add: a2_def frame_bounds_def)
      show "F < length (sprites a2)" using assms(4) by (simp add: a2_def)
      show "contains_now (a2\<lparr>timestampStart := timestampStart a2 + totalDurationMs a2\<rparr>)
              (t + of_int (m + 1) * D) (real F)"
        using c by (simp add: a2_def contains_now_def endTime_def beginTime_def D_def algebra_simps)
    qed
    moreover have "a2\<lparr>is_done := False, currentSpriteIndex := real F,
                  timestampStart := timestampStart a2 + totalDurationMs a2\<rparr>
              = a\<lparr>timestampStart := s + of_int (m + 1) * D, currentSpriteIndex := real F\<rparr>"
      using assms(2) by (simp add: a2_def D_def algebra_simps)
    ultimately show ?thesis by (simp add: a2_def)
  qed
  have e1: "a1\<lparr>currentSpriteIndex := real F\<rparr>
            = a\<lparr>timestampStart := s + of_int k * D, currentSpriteIndex := real F\<rparr>"
    by (simp add: a1_def)
  have run: "currentSpriteIndex (perform_all a [Update t]) = real F
          \<and> perform_all a [Update t, Update u, Update (t + D)]
              = a\<lparr>timestampStart := s + D, currentSpriteIndex := real F\<rparr>"
    if cu: "contains_now a u (real (n - 1))"
  proof -
    have n1: "n - 1 < length (sprites a)" "F \<le> n - 1" "real n - 1 = real (n - 1)"
      using assms(4) by (simp_all add: n_def)
    define b where "b = a\<lparr>currentSpriteIndex := real F\<rparr>"
    have p1: "after_update t a = b" by (simp add: after_update_def u0 b_def)
    note pl = playback_order_bounds [OF assms(3) n1(1)]
    have "u < or0 (timestampEnd (sprites a ! (n - 1))) + s"
      using cu by (simp add: contains_now_def endTime_def s_def)
    with pl(3) have ul: "u - s \<le> D" by (simp add: D_def)
    have "update u b = Inr (b\<lparr>currentSpriteIndex := real (n - 1)\<rparr>)"
    proof (rule update_finds [where i = F])
      show "loop b" using assms(1) by (simp add: b_def)
      show "sorted (frame_bounds b)" using po(1) by (simp add: b_def frame_bounds_def)
      show "n - 1 < length (sprites b)" using n1(1) by (simp add: b_def)
      show "contains_now b u (real (n - 1))"
        using cu by (simp add: b_def contains_now_def endTime_def beginTime_def)
      show "currentSpriteIndex b = real F" by (simp add: b_def)
      show "F \<le> n - 1" by (rule n1(2))
      show "u - timestampStart b \<le> totalDurationMs b" using ul by (simp add: b_def D_def s_def)
    qed
    then have p2: "after_update u b = a\<lparr>currentSpriteIndex := real n - 1\<rparr>"
      by (simp add: after_update_def b_def n1(3))
    have "update (t + D) (a\<lparr>currentSpriteIndex := real n - 1\<rparr>)
            = Inr (a\<lparr>timestampStart := s + D, currentSpriteIndex := real F\<rparr>)"
      using u2 [of 0] by (simp add: s_def)
    then have p3: "after_update (t + D) (a\<lparr>currentSpriteIndex := real n - 1\<rparr>)
            = a\<lparr>timestampStart := s + D, currentSpriteIndex := real F\<rparr>"
      by (simp add: after_update_def)
    show ?thesis by (simp add: perform_all_def p1 p2 p3) (simp add: b_def)
  qed
  have nd: "\<not> isDone (perform_all a cs)"
    using perform_all_done_only_if [of a cs] assms(1,2) by (auto simp: isDone_def)
  from u0 u1 u2 [of k] e1 run nd show ?thesis
    unfolding a1_def D_def s_def n_def by simp
qed

text \<open>
  The looping frames \<open>a\<close> (100 ms) and \<open>b\<close> (50 ms), started at 0, and the time 40 inside
  frame 0: \<^verbatim>\<open>update\<close> stores 0 at 40, at \<open>40 + 2 * 150\<close> with the origin 300, and at
  \<open>40 + 3 * 150\<close> when that call wraps from the origin 300 to 450; the calls at 40, 120
  and 190 store 0, 1 and 0 and leave the origin at 150.
\<close>

theorem looping_index_periodic_witness:
  "loop (start 0 (build True [(''a'', 100), (''b'', 50)]))
   \<and> \<not> is_done (start 0 (build True [(''a'', 100), (''b'', 50)]))
   \<and> in_playback_order (start 0 (build True [(''a'', 100), (''b'', 50)]))
   \<and> (0::nat) < length (sprites (start 0 (build True [(''a'', 100), (''b'', 50)])))
   \<and> contains_now (start 0 (build True [(''a'', 100), (''b'', 50)])) 40 (real 0)
   \<and> currentSpriteIndex (start 0 (build True [(''a'', 100), (''b'', 50)])) = real 0
   \<and> whole 40 \<and> whole (timestampStart (start 0 (build True [(''a'', 100), (''b'', 50)])))
   \<and> whole (totalDurationMs (start 0 (build True [(''a'', 100), (''b'', 50)])))
   \<and> list_all whole (frame_bounds (start 0 (build True [(''a'', 100), (''b'', 50)])))
   \<and> \<bar>40\<bar> + \<bar>timestampStart (start 0 (build True [(''a'', 100), (''b'', 50)]))\<bar>
        + (of_int 2 + 2) * totalDurationMs (start 0 (build True [(''a'', 100), (''b'', 50)])) \<le> 2 ^ 53
   \<and> whole 120
   \<and> contains_now (start 0 (build True [(''a'', 100), (''b'', 50)])) 120 (real (length (sprites (start 0 (build True [(''a'', 100), (''b'', 50)]))) - 1))
   \<and> update 40 (start 0 (build True [(''a'', 100), (''b'', 50)]))
       = Inr (setCurrentSprite 0 (start 0 (build True [(''a'', 100), (''b'', 50)])))
   \<and> update (40 + 2 * 150) (setCurrentSprite 0 (start 300 (build True [(''a'', 100), (''b'', 50)])))
       = Inr (setCurrentSprite 0 (start 300 (build True [(''a'', 100), (''b'', 50)])))
   \<and> update (40 + 3 * 150) (setCurrentSprite 1 (start 300 (build True [(''a'', 100), (''b'', 50)])))
       = Inr (setCurrentSprite 0 (start 450 (build True [(''a'', 100), (''b'', 50)])))
   \<and> currentSpriteIndex (perform_all (start 0 (build True [(''a'', 100), (''b'', 50)])) [Update 40]) = 0
   \<and> perform_all (start 0 (build True [(''a'', 100), (''b'', 50)])) [Update 40, Update 120, Update (40 + 150)]
       = setCurrentSprite 0 (start 150 (build True [(''a'', 100), (''b'', 50)]))
   \<and> \<not> isDone (perform_all (start 0 (build True [(''a'', 100), (''b'', 50)]))
                [Update 40, Update 120, Update 190, Update 270])"
proof -
  define A where "A = start 0 (build True [(''a'', 100), (''b'', 50)])"
  have h1: "loop A" and h2: "\<not> is_done A" by (simp_all add: A_def eval_defs)
  have h3: "in_playback_order A"
    by (simp add: A_def in_playback_order_def frame_bounds_def eval_defs)
  have h4: "(0::nat) < length (sprites A)" by (simp add: A_def eval_defs)
  have h5: "contains_now A 40 (real 0)" by (simp add: A_def eval_defs)
  have h6: "currentSpriteIndex A = real 0" by (simp add: A_def eval_defs)
  have h7: "whole 40" "whole (timestampStart A)" "whole (totalDurationMs A)"
    by (simp_all add: A_def whole_def eval_defs)
  have h8: "list_all whole (frame_bounds A)"
    by (simp add: A_def whole_def frame_bounds_def eval_defs)
  have h9: "\<bar>40\<bar> + \<bar>timestampStart A\<bar> + (of_int 2 + 2) * totalDurationMs A \<le> 2 ^ 53"
    by (simp add: A_def eval_defs)
  have h10: "whole 120" "contains_now A 120 (real (length (sprites A) - 1))"
    by (simp_all add: A_def whole_def eval_defs)
  have ts: "timestampStart A = 0" "totalDurationMs A = 150" "real (length (sprites A)) - 1 = 1"
    by (simp_all add: A_def eval_defs)
  have inst: "update 40 A = Inr (A\<lparr>currentSpriteIndex := real 0\<rparr>)
     \<and> update (40 + of_int 2 * 150)
         (A\<lparr>timestampStart := 0 + of_int 2 * 150, currentSpriteIndex := real 0\<rparr>)
       = Inr (A\<lparr>timestampStart := 0 + of_int 2 * 150, currentSpriteIndex := real 0\<rparr>)
     \<and> update (40 + of_int (2 + 1) * 150)
         (A\<lparr>timestampStart := 0 + of_int 2 * 150, currentSpriteIndex := 1\<rparr>)
       = Inr (A\<lparr>timestampStart := 0 + of_int (2 + 1) * 150, currentSpriteIndex := real 0\<rparr>)
     \<and> (whole 120 \<and> contains_now A 120 (real (length (sprites A) - 1)) \<longrightarrow>
          currentSpriteIndex (perform_all A [Update 40]) = real 0
          \<and> perform_all A [Update 40, Update 120, Update (40 + 150)]
              = A\<lparr>timestampStart := 0 + 150, currentSpriteIndex := real 0\<rparr>)
     \<and> \<not> isDone (perform_all A [Update 40, Update 120, Update 190, Update 270])"
    using looping_index_periodic [OF h1 h2 h3 h4 h5 h6 _ _ _ h7 h8 h9,
      where j = 0 and u = 120 and cs = "[Update 40, Update 120, Update 190, Update 270]"]
    unfolding ts by simp
  have r1: "update 40 A = Inr (A\<lparr>currentSpriteIndex := 0\<rparr>)"
    and r2: "update (40 + 2 * 150) (A\<lparr>timestampStart := 300, currentSpriteIndex := 0\<rparr>)
              = Inr (A\<lparr>timestampStart := 300, currentSpriteIndex := 0\<rparr>)"
    and r3: "update (40 + 3 * 150) (A\<lparr>timestampStart := 300, currentSpriteIndex := 1\<rparr>)
              = Inr (A\<lparr>timestampStart := 450, currentSpriteIndex := 0\<rparr>)"
    and r4: "\<not> isDone (perform_all A [Update 40, Update 120, Update 190, Update 270])"
    using inst by simp_all
  have r5: "currentSpriteIndex (perform_all A [Update 40]) = 0"
    and r6: "perform_all A [Update 40, Update 120, Update (40 + 150)]
              = A\<lparr>timestampStart := 150, currentSpriteIndex := 0\<rparr>"
    using inst h10 by simp_all
  have e: "setCurrentSprite i (start s (build True [(''a'', 100), (''b'', 50)]))
            = A\<lparr>timestampStart := s, currentSpriteIndex := i\<rparr>" for i s
    by (simp add: A_def setCurrentSprite_def start_def)
  have e0: "setCurrentSprite 0 A = A\<lparr>currentSpriteIndex := 0\<rparr>"
    by (simp add: setCurrentSprite_def)
  from h1 h2 h3 h4 h5 h6 h7 h8 h9 h10 r1 r2 r3 r4 r5 r6 show ?thesis
    unfolding e A_def [symmetric] e0 by simp
qed

text \<open>
  Claim C9 as stated. The looping frames \<open>a\<close> (100 ms) and \<open>b\<close> (10 ms), \<open>D = 110\<close>,
  started at 0, with \<^verbatim>\<open>update\<close> called at 5, 60 and 115: at 5 the index is 0, at
  \<open>5 + D\<close> it is 1, since no call found the Animation on its last frame and the origin is
  still 0. With two frames of 100 ms and calls at 0, 50, 100, 150 and 200 the index is 0
  at 0 and 1 at \<open>0 + D\<close>: 0 and 200 are frame boundaries.
\<close>

theorem looping_index_not_periodic_counterexample:
  "loop (start 0 (build True [(''a'', 100), (''b'', 10)]))
   \<and> totalDurationMs (start 0 (build True [(''a'', 100), (''b'', 10)])) = 110
   \<and> currentSpriteIndex (perform_all (start 0 (build True [(''a'', 100), (''b'', 10)]))
        [Update 5]) = 0
   \<and> currentSpriteIndex (perform_all (start 0 (build True [(''a'', 100), (''b'', 10)]))
        [Update 5, Update 60, Update (5 + 1 * 110)]) = 1
   \<and> timestampStart (perform_all (start 0 (build True [(''a'', 100), (''b'', 10)]))
        [Update 5, Update 60, Update (5 + 1 * 110)]) = 0
   \<and> totalDurationMs (start 0 (build True [(''a'', 100), (''b'', 100)])) = 200
   \<and> currentSpriteIndex (perform_all (start 0 (build True [(''a'', 100), (''b'', 100)]))
        [Update 0]) = 0
   \<and> currentSpriteIndex (perform_all (start 0 (build True [(''a'', 100), (''b'', 100)]))
        [Update 0, Update 50, Update 100, Update 150, Update (0 + 1 * 200)]) = 1"
  by (simp add: perform_all_def after_update_def update_def update_wrap_def update_done_def
      eval_defs getAnimIndex_loop.simps)

section \<open>An Animation without sprites\<close>

text \<open>
  Claim C10. The claim: on an Animation whose sprite sequence is empty every public
  operation is total and throws nothing; \<^verbatim>\<open>getAnimIndex\<close> returns 0, \<^verbatim>\<open>update\<close> does not
  fail, \<^verbatim>\<open>getSpriteName()\<close> returns \<^verbatim>\<open>undefined\<close>. The code at the input below throws: on
  a new non-looping Animation after the public call \<^verbatim>\<open>setCurrentSprite(-1)\<close> the loop of
  \<^verbatim>\<open>getAnimIndex\<close> runs with both bounds -1 and destructures \<^verbatim>\<open>this.sprites[-1]\<close>, so
  \<^verbatim>\<open>getAnimIndex\<close> and \<^verbatim>\<open>update\<close> throw a \<^verbatim>\<open>TypeError\<close>, while \<^verbatim>\<open>getSpriteName()\<close>, whose
  read is guarded, returns \<^verbatim>\<open>undefined\<close>.
\<close>

theorem empty_animation_negative_index_throws:
  "sprites (setCurrentSprite (- 1) (new_Animation False)) = []
   \<and> getAnimIndex (setCurrentSprite (- 1) (new_Animation False)) 0 = Inl TypeError
   \<and> update 0 (setCurrentSprite (- 1) (new_Animation False)) = Inl TypeError
   \<and> getSpriteName (setCurrentSprite (- 1) (new_Animation False)) None = None"
  by (simp add: update_def update_wrap_def update_done_def eval_defs getAnimIndex_loop.simps
      sprite_at_def getSpriteName_def)

end
